theory Spec2Isabelle
  imports Complex_Main "HOL-Library.Word"
begin

unbundle bit_operations_syntax

section \<open>The backend of the movie catalogue: data model\<close>

text \<open>
  The program is \<^verbatim>\<open>backend/server.py\<close>: a FastAPI application over three MongoDB
  collections (\<^verbatim>\<open>db.users\<close>, \<^verbatim>\<open>db.movies\<close>, \<^verbatim>\<open>db.user_lists\<close>). Handlers are modelled
  as functions that take the database and return the response (or the
  \<^verbatim>\<open>HTTPException\<close> raised) and, where they write, the database after the call.

  A point in time (\<^verbatim>\<open>datetime\<close>, always UTC here) is a whole number of microseconds since
  the epoch, the resolution of the clock the program reads; \<^verbatim>\<open>timedelta(hours=h)\<close> is a
  number of microseconds. The \<^verbatim>\<open>exp\<close> claim inside a token is in whole seconds: the token
  library takes \<^verbatim>\<open>timegm(exp.utctimetuple())\<close>, which drops the microseconds.
\<close>

type_synonym datetime = int

definition timedelta_hours :: "int \<Rightarrow> int" where
  "timedelta_hours h = h * 3600 * 1000000"

definition timegm :: "datetime \<Rightarrow> int" where
  "timegm t = t div 1000000"

definition JWT_ALGORITHM :: string where
  "JWT_ALGORITHM = ''HS256''"

definition JWT_EXPIRATION :: int where
  "JWT_EXPIRATION = 24"

text \<open>What a handler raises: an \<^verbatim>\<open>HTTPException\<close>, which the framework turns into the
  answer with that status and detail, or an exception of the password context (passlib
  raises, for instance, on a password with a NUL byte and on a hash it cannot identify),
  which no handler catches and the framework answers with status 500.\<close>

datatype raised = HTTPException (status_code: nat) (detail: string) | PasslibError

subsection \<open>Pydantic models\<close>

record UserCreate =
  email :: string
  password :: string
  name :: string

record UserLogin =
  email :: string
  password :: string

record User =
  id :: string
  email :: string
  name :: string
  created_at :: datetime

text \<open>
  A document of \<^verbatim>\<open>db.users\<close>. The only writer of the collection is \<^verbatim>\<open>register\<close>, which
  stores \<^verbatim>\<open>user.dict()\<close> with the extra key \<^verbatim>\<open>password_hash\<close>: the fields of a
  \<^verbatim>\<open>User\<close>, extended by the hash.
\<close>

record user_doc = User +
  password_hash :: string

record Movie =
  id :: string
  title :: string
  title_ru :: string
  description :: string
  description_ru :: string
  year :: int
  duration :: int
  genre_ids :: "string list"
  poster_url :: string
  trailer_url :: string
  video_url :: "string option"
  rating :: real
  created_at :: datetime

record UserList =
  id :: string
  user_id :: string
  movie_id :: string
  list_type :: string
  created_at :: datetime

text \<open>The claim set of a token: the dictionary with the keys \<^verbatim>\<open>user_id\<close> and \<^verbatim>\<open>exp\<close>,
  either of which a decoded token may lack. The program puts a \<^verbatim>\<open>datetime\<close> under
  \<^verbatim>\<open>exp\<close>; a decoded claim set has the whole seconds there.\<close>

record payload =
  user_id :: "string option"
  exp :: "datetime option"

text \<open>The body of a successful answer of \<^verbatim>\<open>/auth/register\<close> and \<^verbatim>\<open>/auth/login\<close>.\<close>

record auth_response =
  user :: User
  token :: string
  message :: string

text \<open>The value of a key of \<^verbatim>\<open>model.dict()\<close>, which is also what the framework
  serialises into a response.\<close>

datatype val = Str string | Datetime datetime

definition User_dict :: "User \<Rightarrow> (string \<times> val) list" where
  "User_dict u =
     [(''id'', Str (User.id u)), (''email'', Str (User.email u)),
      (''name'', Str (User.name u)), (''created_at'', Datetime (User.created_at u))]"

text \<open>\<^verbatim>\<open>user_dict = user.dict(); user_dict['password_hash'] = h\<close>, as a dictionary and as
  the document it becomes.\<close>

definition user_doc_dict :: "user_doc \<Rightarrow> (string \<times> val) list" where
  "user_doc_dict d = User_dict (User.truncate d) @ [(''password_hash'', Str (password_hash d))]"

definition with_password_hash :: "User \<Rightarrow> string \<Rightarrow> user_doc" where
  "with_password_hash u h = User.extend u (user_doc.fields h)"

text \<open>\<^verbatim>\<open>User(**user_data)\<close> on a stored document: pydantic keeps the declared fields and
  ignores the other keys (\<^verbatim>\<open>_id\<close>, \<^verbatim>\<open>password_hash\<close>).\<close>

definition User_init :: "user_doc \<Rightarrow> User" where
  "User_init user_data = User.truncate user_data"

subsection \<open>What a request draws from outside\<close>

text \<open>
  \<^verbatim>\<open>uuid.uuid4()\<close>, \<^verbatim>\<open>datetime.now(timezone.utc)\<close> and the salt of the password hash
  are inputs of a request: the 128-bit identifier drawn, the clock when a model is built
  (\<^verbatim>\<open>created_at\<close>), the clock when a token is issued, and the salt.
\<close>

record request_env =
  uuid4 :: "128 word"
  utcnow :: datetime
  utcnow_token :: datetime
  gensalt :: string

text \<open>\<^verbatim>\<open>str(uuid)\<close>: 32 lower-case hexadecimal digits, grouped 8-4-4-4-12.\<close>

definition hex32 :: "128 word \<Rightarrow> string" where
  "hex32 w = map (\<lambda>i. ''0123456789abcdef'' ! unat (drop_bit (4 * (31 - i)) w AND 15)) [0..<32]"

definition str_uuid :: "128 word \<Rightarrow> string" where
  "str_uuid w =
     (let h = hex32 w
      in take 8 h @ ''-'' @ take 4 (drop 8 h) @ ''-'' @ take 4 (drop 12 h) @ ''-'' @
         take 4 (drop 16 h) @ ''-'' @ drop 20 h)"

subsection \<open>The libraries the program calls\<close>

text \<open>
  The password context (passlib, bcrypt) and the token library (PyJWT) are not part of
  the repository; the program is modelled over them. \<^verbatim>\<open>pwd_context.verify\<close> returns a
  truth value or raises (\<^const>\<open>None\<close>). \<^verbatim>\<open>jwt.decode\<close> reads the clock
  itself, so the model passes it the time of the call. It either returns the claim set or
  raises \<^verbatim>\<open>ExpiredSignatureError\<close> or another \<^verbatim>\<open>InvalidTokenError\<close>.
  \<^verbatim>\<open>environ_JWT_SECRET\<close> is the environment variable \<^verbatim>\<open>JWT_SECRET\<close>, if set.
\<close>

datatype jwt_error = ExpiredSignatureError | InvalidTokenError

record libs =
  pwd_context_hash :: "string \<Rightarrow> string \<Rightarrow> string"
  pwd_context_verify :: "string \<Rightarrow> string \<Rightarrow> bool option"
  jwt_encode :: "payload \<Rightarrow> string \<Rightarrow> string \<Rightarrow> string"
  jwt_decode :: "string \<Rightarrow> string \<Rightarrow> string list \<Rightarrow> datetime \<Rightarrow> jwt_error + payload"
  environ_JWT_SECRET :: "string option"

definition JWT_SECRET :: "libs \<Rightarrow> string" where
  "JWT_SECRET L =
     (case environ_JWT_SECRET L of None \<Rightarrow> ''netflix-secret-key-123'' | Some k \<Rightarrow> k)"

subsection \<open>The database\<close>

text \<open>A collection is the list of its documents in the order the store returns them:
  \<^verbatim>\<open>find_one\<close> is the first match (\<^const>\<open>find\<close>), \<^verbatim>\<open>find\<close> the matches in order
  (\<^const>\<open>filter\<close>), \<^verbatim>\<open>insert_one\<close> appends, \<^verbatim>\<open>delete_one\<close> removes the first match and
  reports how many documents it removed.\<close>

record db =
  users :: "user_doc list"
  movies :: "Movie list"
  user_lists :: "UserList list"

fun delete_one :: "('a \<Rightarrow> bool) \<Rightarrow> 'a list \<Rightarrow> nat \<times> 'a list" where
  "delete_one q [] = (0, [])"
| "delete_one q (x # xs) =
     (if q x then (1, xs) else (case delete_one q xs of (n, ys) \<Rightarrow> (n, x # ys)))"

section \<open>Helper functions\<close>

definition hash_password :: "libs \<Rightarrow> string \<Rightarrow> string \<Rightarrow> string" where
  "hash_password L salt plain_password = pwd_context_hash L salt plain_password"

definition verify_password :: "libs \<Rightarrow> string \<Rightarrow> string \<Rightarrow> bool option" where
  "verify_password L plain_password hashed_password =
     pwd_context_verify L plain_password hashed_password"

definition create_jwt_token :: "libs \<Rightarrow> string \<Rightarrow> datetime \<Rightarrow> string" where
  "create_jwt_token L uid now =
     jwt_encode L
       \<lparr>payload.user_id = Some uid, payload.exp = Some (now + timedelta_hours JWT_EXPIRATION)\<rparr>
       (JWT_SECRET L) JWT_ALGORITHM"

text \<open>
  \<^verbatim>\<open>get_current_user\<close>. The two \<^verbatim>\<open>HTTPException\<close>s raised inside the \<^verbatim>\<open>try\<close> are not
  token errors, so they pass the \<^verbatim>\<open>except\<close> clauses unchanged. \<^verbatim>\<open>not user_id\<close> holds for
  a missing key and for the empty string.
\<close>

definition get_current_user :: "libs \<Rightarrow> db \<Rightarrow> datetime \<Rightarrow> string \<Rightarrow> raised + User" where
  "get_current_user L s now tok =
     (case jwt_decode L tok (JWT_SECRET L) [JWT_ALGORITHM] now of
        Inl ExpiredSignatureError \<Rightarrow> Inl (HTTPException 401 ''Token expired'')
      | Inl InvalidTokenError \<Rightarrow> Inl (HTTPException 401 ''Invalid token'')
      | Inr p \<Rightarrow>
          (case payload.user_id p of
             None \<Rightarrow> Inl (HTTPException 401 ''Invalid token'')
           | Some uid \<Rightarrow>
               if uid = [] then Inl (HTTPException 401 ''Invalid token'')
               else
                 (case find (\<lambda>d. User.id d = uid) (users s) of
                    None \<Rightarrow> Inl (HTTPException 401 ''User not found'')
                  | Some u \<Rightarrow> Inr (User_init u))))"

section \<open>Auth endpoints\<close>

definition register ::
  "libs \<Rightarrow> request_env \<Rightarrow> db \<Rightarrow> UserCreate \<Rightarrow> (raised + auth_response) \<times> db" where
  "register L env s user_data =
     (case find (\<lambda>d. User.email d = UserCreate.email user_data) (users s) of
        Some existing_user \<Rightarrow> (Inl (HTTPException 400 ''Email already registered''), s)
      | None \<Rightarrow>
          (let u = \<lparr>User.id = str_uuid (uuid4 env),
                    User.email = UserCreate.email user_data,
                    User.name = UserCreate.name user_data,
                    User.created_at = utcnow env\<rparr>;
               user_dict =
                 with_password_hash u
                   (hash_password L (gensalt env) (UserCreate.password user_data));
               s' = s\<lparr>users := users s @ [user_dict]\<rparr>;
               tok = create_jwt_token L (User.id u) (utcnow_token env)
           in (Inr \<lparr>user = u, token = tok, message = ''Registration successful''\<rparr>, s')))"

text \<open>\<^verbatim>\<open>login\<close>. The call of \<^verbatim>\<open>verify_password\<close> stands in no \<^verbatim>\<open>try\<close>: when it raises, the
  handler raises.\<close>

definition login ::
  "libs \<Rightarrow> request_env \<Rightarrow> db \<Rightarrow> UserLogin \<Rightarrow> raised + auth_response" where
  "login L env s login_data =
     (case find (\<lambda>d. User.email d = UserLogin.email login_data) (users s) of
        None \<Rightarrow> Inl (HTTPException 401 ''Invalid credentials'')
      | Some user_data \<Rightarrow>
          (case verify_password L (UserLogin.password login_data) (password_hash user_data) of
             None \<Rightarrow> Inl PasslibError
           | Some verified \<Rightarrow>
               if \<not> verified
               then Inl (HTTPException 401 ''Invalid credentials'')
               else
                 (let u = User_init user_data;
                      tok = create_jwt_token L (User.id u) (utcnow_token env)
                  in Inr \<lparr>user = u, token = tok, message = ''Login successful''\<rparr>)))"

definition get_me :: "User \<Rightarrow> User" where
  "get_me current_user = current_user"

section \<open>User list endpoints\<close>

text \<open>The handlers receive \<^verbatim>\<open>current_user\<close> from \<^verbatim>\<open>get_current_user\<close>; the query of the
  three list handlers is on the keys \<^verbatim>\<open>user_id\<close>, \<^verbatim>\<open>movie_id\<close>, \<^verbatim>\<open>list_type\<close>.\<close>

definition list_query :: "string \<Rightarrow> string \<Rightarrow> string \<Rightarrow> UserList \<Rightarrow> bool" where
  "list_query uid mid lt r \<longleftrightarrow>
     UserList.user_id r = uid \<and> UserList.movie_id r = mid \<and> UserList.list_type r = lt"

definition add_to_list ::
  "request_env \<Rightarrow> db \<Rightarrow> string \<Rightarrow> string \<Rightarrow> User \<Rightarrow> (raised + string) \<times> db" where
  "add_to_list env s mid lt current_user =
     (case find (list_query (User.id current_user) mid lt) (user_lists s) of
        Some existing \<Rightarrow> (Inl (HTTPException 400 ''Already in list''), s)
      | None \<Rightarrow>
          (let user_list = \<lparr>UserList.id = str_uuid (uuid4 env),
                            UserList.user_id = User.id current_user,
                            UserList.movie_id = mid,
                            UserList.list_type = lt,
                            UserList.created_at = utcnow env\<rparr>
           in (Inr (''Added to '' @ lt), s\<lparr>user_lists := user_lists s @ [user_list]\<rparr>)))"

definition remove_from_list ::
  "db \<Rightarrow> string \<Rightarrow> string \<Rightarrow> User \<Rightarrow> (raised + string) \<times> db" where
  "remove_from_list s mid lt current_user =
     (case delete_one (list_query (User.id current_user) mid lt) (user_lists s) of
        (deleted_count, rest) \<Rightarrow>
          if deleted_count = 0
          then (Inl (HTTPException 404 ''Item not found in list''), s\<lparr>user_lists := rest\<rparr>)
          else (Inr (''Removed from '' @ lt), s\<lparr>user_lists := rest\<rparr>))"

definition get_user_list :: "db \<Rightarrow> string \<Rightarrow> User \<Rightarrow> Movie list" where
  "get_user_list s lt current_user =
     (let found =
            filter (\<lambda>r. UserList.user_id r = User.id current_user \<and> UserList.list_type r = lt)
              (user_lists s);
          movie_ids = map UserList.movie_id found
      in filter (\<lambda>m. Movie.id m \<in> set movie_ids) (movies s))"

section \<open>Reachable states\<close>

text \<open>
  The states the program reaches from the empty database, together with the tokens it
  has issued so far, each with the time it was issued at and the identifier of the user in
  the response that carried it. Only \<^verbatim>\<open>register\<close> writes
  \<^verbatim>\<open>db.users\<close> and only the two list handlers write \<^verbatim>\<open>db.user_lists\<close>; no handler
  deletes a user. The catalogue endpoints write \<^verbatim>\<open>db.movies\<close> only, which is left free to
  change. The list handlers run for whatever user the token resolution hands them.
\<close>

definition empty_db :: db where
  "empty_db = \<lparr>users = [], movies = [], user_lists = []\<rparr>"

inductive reach :: "libs \<Rightarrow> db \<Rightarrow> (string \<times> datetime \<times> string) list \<Rightarrow> bool"
  for L :: libs where
  start: "reach L empty_db []"
| catalog: "reach L s I \<Longrightarrow> reach L (s\<lparr>movies := ms\<rparr>) I"
| registered:
    "reach L s I \<Longrightarrow> register L env s user_data = (Inr r, s') \<Longrightarrow>
     reach L s' ((token r, utcnow_token env, User.id (user r)) # I)"
| logged_in:
    "reach L s I \<Longrightarrow> login L env s login_data = Inr r \<Longrightarrow>
     reach L s ((token r, utcnow_token env, User.id (user r)) # I)"
| added: "reach L s I \<Longrightarrow> add_to_list env s mid lt u = (res, s') \<Longrightarrow> reach L s' I"
| removed: "reach L s I \<Longrightarrow> remove_from_list s mid lt u = (res, s') \<Longrightarrow> reach L s' I"

text \<open>Every token issued so far was made by \<^verbatim>\<open>create_jwt_token\<close> for the non-empty
  identifier of a user that is still stored.\<close>

definition issued_for_stored ::
  "libs \<Rightarrow> db \<Rightarrow> (string \<times> datetime \<times> string) list \<Rightarrow> bool" where
  "issued_for_stored L s I \<longleftrightarrow>
     (\<forall>(tok, T, uid) \<in> set I.
        uid \<noteq> [] \<and> tok = create_jwt_token L uid T \<and> (\<exists>d \<in> set (users s). User.id d = uid))"

section \<open>What is assumed of the libraries\<close>

text \<open>
  Of the password context: verifying a password against a hash made of it returns true,
  whatever the salt. Of the token library: encoding keeps the whole seconds of \<^verbatim>\<open>exp\<close>;
  decoding, with the key and the algorithm it was encoded with, a token that carries a
  \<^verbatim>\<open>user_id\<close> and an \<^verbatim>\<open>exp\<close> gives the claim set back as long as the clock, read to
  the microsecond, is before that second, and raises \<^verbatim>\<open>ExpiredSignatureError\<close> from that
  second on.
\<close>

definition pwd_contract :: "libs \<Rightarrow> bool" where
  "pwd_contract L \<longleftrightarrow>
     (\<forall>salt pw. pwd_context_verify L pw (pwd_context_hash L salt pw) = Some True)"

definition jwt_contract :: "libs \<Rightarrow> bool" where
  "jwt_contract L \<longleftrightarrow>
     (\<forall>uid e key alg now.
        jwt_decode L (jwt_encode L \<lparr>payload.user_id = Some uid, payload.exp = Some e\<rparr> key alg)
          key [alg] now =
        (if timegm e * 1000000 \<le> now then Inl ExpiredSignatureError
         else Inr \<lparr>payload.user_id = Some uid, payload.exp = Some (timegm e)\<rparr>))"

subsection \<open>A transparent instance\<close>

text \<open>
  An instance of the library interface that hides nothing, to run the handlers on concrete
  requests: the hash is the password behind a marker (a hash without the marker is one the
  verification raises on), the token spells out its expiry (a sign and a tally) and its
  subject.
\<close>

definition plain_hash :: "string \<Rightarrow> string \<Rightarrow> string" where
  "plain_hash salt pw = CHR ''$'' # pw"

definition plain_verify :: "string \<Rightarrow> string \<Rightarrow> bool option" where
  "plain_verify pw h =
     (case h of [] \<Rightarrow> None | c # cs \<Rightarrow> if c = CHR ''$'' then Some (cs = pw) else None)"

definition plain_encode :: "payload \<Rightarrow> string \<Rightarrow> string \<Rightarrow> string" where
  "plain_encode p key alg =
     (case (payload.user_id p, payload.exp p) of
        (Some uid, Some e) \<Rightarrow>
          (if timegm e < 0 then CHR ''-'' else CHR ''+'') #
          replicate (nat \<bar>timegm e\<bar>) (CHR ''1'') @ CHR ''.'' # uid
      | _ \<Rightarrow> [])"

definition plain_decode :: "string \<Rightarrow> string \<Rightarrow> string list \<Rightarrow> datetime \<Rightarrow> jwt_error + payload" where
  "plain_decode tok key algs now =
     (case tok of
        [] \<Rightarrow> Inl InvalidTokenError
      | c # cs \<Rightarrow>
          (case dropWhile (\<lambda>x. x = CHR ''1'') cs of
             [] \<Rightarrow> Inl InvalidTokenError
           | d # uid \<Rightarrow>
               (let n = int (length (takeWhile (\<lambda>x. x = CHR ''1'') cs));
                    e = (if c = CHR ''-'' then - n else n)
                in if e * 1000000 \<le> now then Inl ExpiredSignatureError
                   else Inr \<lparr>payload.user_id = Some uid, payload.exp = Some e\<rparr>)))"

definition plain_libs :: libs where
  "plain_libs =
     \<lparr>pwd_context_hash = plain_hash, pwd_context_verify = plain_verify,
      jwt_encode = plain_encode, jwt_decode = plain_decode, environ_JWT_SECRET = None\<rparr>"

text \<open>Concrete requests: Alice registers at time 0, or with the token issued 0.9 seconds
  later; Bob is a resolved user.\<close>

definition env0 :: request_env where
  "env0 = \<lparr>uuid4 = 7, utcnow = 0, utcnow_token = 0, gensalt = ''s''\<rparr>"

definition env1 :: request_env where
  "env1 = \<lparr>uuid4 = 7, utcnow = 0, utcnow_token = 900000, gensalt = ''s''\<rparr>"

definition alice :: UserCreate where
  "alice = \<lparr>UserCreate.email = ''alice@example.com'', UserCreate.password = ''pw123'',
            UserCreate.name = ''Alice''\<rparr>"

definition alice_login :: UserLogin where
  "alice_login = \<lparr>UserLogin.email = ''alice@example.com'', UserLogin.password = ''pw123''\<rparr>"

definition bob :: User where
  "bob = \<lparr>User.id = ''bob'', User.email = ''bob@example.com'', User.name = ''Bob'',
          User.created_at = 0\<rparr>"

definition alice_user :: User where
  "alice_user = \<lparr>User.id = str_uuid 7, User.email = ''alice@example.com'', User.name = ''Alice'',
                 User.created_at = 0\<rparr>"

definition alice_doc :: user_doc where
  "alice_doc = with_password_hash alice_user (plain_hash ''s'' ''pw123'')"

definition db1 :: db where
  "db1 = \<lparr>users = [alice_doc], movies = [], user_lists = []\<rparr>"

definition bob_favorite :: UserList where
  "bob_favorite = \<lparr>UserList.id = str_uuid 7, UserList.user_id = ''bob'', UserList.movie_id = ''m1'',
                    UserList.list_type = ''favorites'', UserList.created_at = 0\<rparr>"

definition db2 :: db where
  "db2 = \<lparr>users = [], movies = [], user_lists = [bob_favorite]\<rparr>"

definition the_matrix :: Movie where
  "the_matrix =
     \<lparr>Movie.id = ''m1'', title = ''The Matrix'', title_ru = ''Matritsa'',
      description = ''A computer programmer discovers reality is a simulation.'',
      description_ru = [], year = 1999, duration = 136, genre_ids = [''action'', ''sci-fi''],
      poster_url = [], trailer_url = [], video_url = None, rating = 0,
      Movie.created_at = 0\<rparr>"

definition db3 :: db where
  "db3 = \<lparr>users = [], movies = [the_matrix], user_lists = []\<rparr>"

section \<open>The compact form of a token\<close>

text \<open>
  What a token looks like as a string is the work of the token library and of Python's
  \<^verbatim>\<open>base64\<close> module, modelled here for HS256. A token is
  \<^verbatim>\<open>header.payload.signature\<close>, each part base64url without padding; the signature is
  the MAC, under the key, of the string before the last dot. \<^verbatim>\<open>jwt.decode\<close> splits at the
  last dot and then at the first one, decodes the three parts, compares the decoded
  signature with the MAC of the signing input, and only then looks at header and claims.
  Every refusal but the expiry is an \<^verbatim>\<open>InvalidTokenError\<close>.

  \<^verbatim>\<open>base64url_decode\<close> pads its argument with \<^verbatim>\<open>=\<close> to a multiple of four characters and
  calls \<^verbatim>\<open>urlsafe_b64decode\<close>. That decoder (\<^verbatim>\<open>a2b_base64\<close>, not strict) reads \<^verbatim>\<open>-\<close>
  as \<^verbatim>\<open>+\<close> and \<^verbatim>\<open>_\<close> as \<^verbatim>\<open>/\<close>, skips every character outside the alphabet, stops at
  a complete padding, discards the bits left over in an incomplete group, and fails when
  the data characters end inside a group that the padding does not complete.
\<close>

definition b64_value :: "char \<Rightarrow> nat option" where
  "b64_value c =
     (let n = (of_char c :: nat)
      in if 65 \<le> n \<and> n \<le> 90 then Some (n - 65)
         else if 97 \<le> n \<and> n \<le> 122 then Some (n - 71)
         else if 48 \<le> n \<and> n \<le> 57 then Some (n + 4)
         else if c = CHR ''+'' \<or> c = CHR ''-'' then Some 62
         else if c = CHR ''/'' \<or> c = CHR ''_'' then Some 63
         else None)"

fun a2b_base64 :: "nat \<Rightarrow> nat \<Rightarrow> nat \<Rightarrow> string \<Rightarrow> string \<Rightarrow> string option" where
  "a2b_base64 quad_pos leftchar pads out [] = (if quad_pos \<noteq> 0 then None else Some out)"
| "a2b_base64 quad_pos leftchar pads out (ch # rest) =
     (if ch = CHR ''='' then
        (if 2 \<le> quad_pos \<and> 4 \<le> quad_pos + (pads + 1) then Some out
         else a2b_base64 quad_pos leftchar (if 2 \<le> quad_pos then pads + 1 else pads) out rest)
      else
        (case b64_value ch of
           None \<Rightarrow> a2b_base64 quad_pos leftchar pads out rest
         | Some v \<Rightarrow>
             if quad_pos = 0 then a2b_base64 1 v 0 out rest
             else if quad_pos = 1 then
               a2b_base64 2 (v mod 16) 0 (out @ [char_of (leftchar * 4 + v div 16)]) rest
             else if quad_pos = 2 then
               a2b_base64 3 (v mod 4) 0 (out @ [char_of (leftchar * 16 + v div 4)]) rest
             else a2b_base64 0 0 0 (out @ [char_of (leftchar * 64 + v)]) rest))"

definition base64url_decode :: "string \<Rightarrow> string option" where
  "base64url_decode s = a2b_base64 0 0 0 [] (s @ replicate ((4 - length s mod 4) mod 4) (CHR ''=''))"

text \<open>\<^verbatim>\<open>urlsafe_b64encode\<close> with the padding removed.\<close>

definition b64_char :: "nat \<Rightarrow> char" where
  "b64_char n = ''ABCDEFGHIJKLMNOPQRSTUVWXYZabcdefghijklmnopqrstuvwxyz0123456789-_'' ! n"

fun b2a :: "string \<Rightarrow> string" where
  "b2a (a # b # c # rest) =
     (let x = (of_char a :: nat); y = (of_char b :: nat); z = (of_char c :: nat)
      in [b64_char (x div 4), b64_char ((x mod 4) * 16 + y div 16),
          b64_char ((y mod 16) * 4 + z div 64), b64_char (z mod 64)] @ b2a rest)"
| "b2a [a, b] =
     (let x = (of_char a :: nat); y = (of_char b :: nat)
      in [b64_char (x div 4), b64_char ((x mod 4) * 16 + y div 16), b64_char ((y mod 16) * 4)])"
| "b2a [a] = (let x = (of_char a :: nat) in [b64_char (x div 4), b64_char ((x mod 4) * 16)])"
| "b2a [] = []"

fun decimal :: "nat \<Rightarrow> string" where
  "decimal n = (if n < 10 then [char_of (48 + n)] else decimal (n div 10) @ [char_of (48 + n mod 10)])"


text \<open>\<^verbatim>\<open>s.split(b'.', 1)\<close> and \<^verbatim>\<open>s.rsplit(b'.', 1)\<close>, where two parts come out.\<close>

definition split_first :: "string \<Rightarrow> (string \<times> string) option" where
  "split_first s =
     (if CHR ''.'' \<in> set s
      then Some (takeWhile (\<lambda>c. c \<noteq> CHR ''.'') s, tl (dropWhile (\<lambda>c. c \<noteq> CHR ''.'') s))
      else None)"

definition split_last :: "string \<Rightarrow> (string \<times> string) option" where
  "split_last s =
     (if CHR ''.'' \<in> set s
      then Some (rev (tl (dropWhile (\<lambda>c. c \<noteq> CHR ''.'') (rev s))),
                 rev (takeWhile (\<lambda>c. c \<noteq> CHR ''.'') (rev s)))
      else None)"

text \<open>Decoding over a MAC and a validation of the decoded header and claims.\<close>

definition jws_decode ::
  "(string \<Rightarrow> string \<Rightarrow> string) \<Rightarrow>
   (string \<Rightarrow> string \<Rightarrow> string list \<Rightarrow> datetime \<Rightarrow> jwt_error + payload) \<Rightarrow>
   string \<Rightarrow> string \<Rightarrow> string list \<Rightarrow> datetime \<Rightarrow> jwt_error + payload" where
  "jws_decode mac claims tok key algs now =
     (case split_last tok of
        None \<Rightarrow> Inl InvalidTokenError
      | Some (signing_input, crypto_segment) \<Rightarrow>
          (case split_first signing_input of
             None \<Rightarrow> Inl InvalidTokenError
           | Some (header_segment, payload_segment) \<Rightarrow>
               (case base64url_decode header_segment of
                  None \<Rightarrow> Inl InvalidTokenError
                | Some header_data \<Rightarrow>
                    (case base64url_decode payload_segment of
                       None \<Rightarrow> Inl InvalidTokenError
                     | Some payload_data \<Rightarrow>
                         (case base64url_decode crypto_segment of
                            None \<Rightarrow> Inl InvalidTokenError
                          | Some signature \<Rightarrow>
                              if signature = mac key signing_input
                              then claims header_data payload_data algs now
                              else Inl InvalidTokenError)))))"

text \<open>A token passes the signature check when its last part decodes to the MAC of what
  stands before the last dot.\<close>

definition signature_verifies :: "(string \<Rightarrow> string \<Rightarrow> string) \<Rightarrow> string \<Rightarrow> string \<Rightarrow> bool" where
  "signature_verifies mac key tok \<longleftrightarrow>
     (case split_last tok of
        None \<Rightarrow> False
      | Some (signing_input, crypto_segment) \<Rightarrow>
          base64url_decode crypto_segment = Some (mac key signing_input))"

text \<open>What is assumed of the token library where the form of a token matters: its
  \<^verbatim>\<open>decode\<close> is the decoding above, for some MAC and some validation.\<close>

definition jws_contract ::
  "libs \<Rightarrow> (string \<Rightarrow> string \<Rightarrow> string) \<Rightarrow>
   (string \<Rightarrow> string \<Rightarrow> string list \<Rightarrow> datetime \<Rightarrow> jwt_error + payload) \<Rightarrow> bool" where
  "jws_contract L mac claims \<longleftrightarrow>
     (\<forall>tok key algs now. jwt_decode L tok key algs now = jws_decode mac claims tok key algs now)"

subsection \<open>An instance with tokens in the compact form\<close>

text \<open>
  For concrete tokens: the encoding writes the three parts as the library does. Stand-ins
  of the right shape take the place of HMAC-SHA256 (32 bytes made of the key and of the
  end of the message), of the JSON header (the name of the algorithm) and of the JSON
  claim set (the seconds of \<^verbatim>\<open>exp\<close> in decimal, a bar, the \<^verbatim>\<open>user_id\<close>).
\<close>

definition tag_mac :: "string \<Rightarrow> string \<Rightarrow> string" where
  "tag_mac key msg =
     take 32 (take 16 (key @ replicate 16 (CHR 0x00)) @ rev msg @ replicate 16 (CHR 0x00))"

definition from_decimal :: "string \<Rightarrow> nat" where
  "from_decimal ds = foldl (\<lambda>n c. 10 * n + (of_char c - 48)) 0 ds"

definition is_digit :: "char \<Rightarrow> bool" where
  "is_digit c \<longleftrightarrow> 48 \<le> (of_char c :: nat) \<and> (of_char c :: nat) \<le> 57"

definition tag_claims :: "string \<Rightarrow> string \<Rightarrow> string list \<Rightarrow> datetime \<Rightarrow> jwt_error + payload" where
  "tag_claims header_data payload_data algs now =
     (if header_data \<notin> set algs then Inl InvalidTokenError
      else
        (case dropWhile is_digit payload_data of
           [] \<Rightarrow> Inl InvalidTokenError
         | c # uid \<Rightarrow>
             if c \<noteq> CHR ''|'' \<or> takeWhile is_digit payload_data = [] then Inl InvalidTokenError
             else
               (let e = int (from_decimal (takeWhile is_digit payload_data))
                in if e * 1000000 \<le> now then Inl ExpiredSignatureError
                   else Inr \<lparr>payload.user_id = Some uid, payload.exp = Some e\<rparr>)))"

definition tag_encode :: "payload \<Rightarrow> string \<Rightarrow> string \<Rightarrow> string" where
  "tag_encode p key alg =
     (case (payload.user_id p, payload.exp p) of
        (Some uid, Some e) \<Rightarrow>
          (let signing_input = b2a alg @ ''.'' @ b2a (decimal (nat (timegm e)) @ ''|'' @ uid)
           in signing_input @ ''.'' @ b2a (tag_mac key signing_input))
      | _ \<Rightarrow> [])"

definition tag_libs :: libs where
  "tag_libs =
     \<lparr>pwd_context_hash = plain_hash, pwd_context_verify = plain_verify,
      jwt_encode = tag_encode, jwt_decode = jws_decode tag_mac tag_claims,
      environ_JWT_SECRET = None\<rparr>"

text \<open>The token Alice gets when she registers at time 0 with this instance: the part
  before the last dot, and the signature.\<close>

definition alice_signing_input :: string where
  "alice_signing_input = ''SFMyNTY.ODY0MDB8MDAwMDAwMDAtMDAwMC0wMDAwLTAwMDAtMDAwMDAwMDAwMDA3''"

definition alice_signature :: string where
  "alice_signature = ''bmV0ZmxpeC1zZWNyZXQtazNBRE13QURNd0FETXdBRE0''"

section \<open>Registration and login\<close>

lemma find_email_Some:
  assumes "d \<in> set ds" and "User.email d = e"
  shows "\<exists>x. find (\<lambda>d. User.email d = e) ds = Some x"
proof (cases "find (\<lambda>d. User.email d = e) ds")
  case None
  with assms show ?thesis by (auto simp: find_None_iff)
next
  case (Some x)
  then show ?thesis by blast
qed

text \<open>
  C5. Registering with an e-mail address that a stored user already has fails with
  status 400, ``Email already registered'', whatever the password and the name, and
  leaves the database as it was: no user document is created.
\<close>

theorem register_email_taken:
  assumes "d \<in> set (users s)" and "User.email d = e"
  shows "register L env s
           \<lparr>UserCreate.email = e, UserCreate.password = pw, UserCreate.name = n\<rparr> =
           (Inl (HTTPException 400 ''Email already registered''), s)"
proof -
  from find_email_Some [OF assms] obtain x
    where "find (\<lambda>d. User.email d = e) (users s) = Some x" ..
  then show ?thesis by (simp add: register_def)
qed

theorem register_email_taken_witness:
  "alice_doc \<in> set (users db1) \<and> User.email alice_doc = ''alice@example.com'' \<and>
   register plain_libs env0 db1 alice =
     (Inl (HTTPException 400 ''Email already registered''), db1)"
proof -
  have m: "alice_doc \<in> set (users db1)" by (simp add: db1_def)
  have e: "User.email alice_doc = ''alice@example.com''"
    by (simp add: alice_doc_def alice_user_def with_password_hash_def User.extend_def)
  from register_email_taken [OF m e, of plain_libs env0 "''pw123''" "''Alice''"] m e
  show ?thesis by (simp add: alice_def)
qed

text \<open>
  C6. A login fails in the same way, with status 401 and the detail ``Invalid
  credentials'', when no stored user has the e-mail address and when the verification of
  the password against the stored hash returns false. The only other way a login fails is
  that the verification itself raises, for a stored user: that exception is not caught.
\<close>

theorem login_failure_indistinguishable:
  "(find (\<lambda>d. User.email d = UserLogin.email login_data) (users s) = None \<longrightarrow>
      login L env s login_data = Inl (HTTPException 401 ''Invalid credentials'')) \<and>
   (\<forall>d. find (\<lambda>d. User.email d = UserLogin.email login_data) (users s) = Some d \<and>
        verify_password L (UserLogin.password login_data) (password_hash d) = Some False \<longrightarrow>
      login L env s login_data = Inl (HTTPException 401 ''Invalid credentials'')) \<and>
   (\<forall>x. login L env s login_data = Inl x \<longrightarrow>
      x = HTTPException 401 ''Invalid credentials'' \<or>
      x = PasslibError \<and>
      (\<exists>d. find (\<lambda>d. User.email d = UserLogin.email login_data) (users s) = Some d \<and>
           verify_password L (UserLogin.password login_data) (password_hash d) = None))"
  by (auto simp: login_def Let_def split: option.splits if_splits)

theorem login_failure_indistinguishable_witness:
  "find (\<lambda>d. User.email d = UserLogin.email alice_login) (users empty_db) = None \<and>
   login plain_libs env0 empty_db alice_login = Inl (HTTPException 401 ''Invalid credentials'') \<and>
   find (\<lambda>d. User.email d = UserLogin.email alice_login) (users db1) = Some alice_doc \<and>
   verify_password plain_libs (UserLogin.password (alice_login\<lparr>UserLogin.password := ''wrongpw''\<rparr>))
     (password_hash alice_doc) = Some False \<and>
   login plain_libs env0 db1 (alice_login\<lparr>UserLogin.password := ''wrongpw''\<rparr>) =
     Inl (HTTPException 401 ''Invalid credentials'')"
proof -
  have a: "find (\<lambda>d. User.email d = UserLogin.email alice_login) (users empty_db) = None"
    by (simp add: empty_db_def)
  have b: "find (\<lambda>d. User.email d =
             UserLogin.email (alice_login\<lparr>UserLogin.password := ''wrongpw''\<rparr>)) (users db1) =
           Some alice_doc"
    by (simp add: db1_def alice_login_def alice_doc_def alice_user_def with_password_hash_def
        User.extend_def)
  have c: "verify_password plain_libs
             (UserLogin.password (alice_login\<lparr>UserLogin.password := ''wrongpw''\<rparr>))
             (password_hash alice_doc) = Some False"
    by (simp add: verify_password_def plain_libs_def plain_verify_def alice_doc_def
        with_password_hash_def User.extend_def user_doc.fields_def plain_hash_def)
  from login_failure_indistinguishable [of alice_login empty_db plain_libs env0] a
  have 1: "login plain_libs env0 empty_db alice_login =
             Inl (HTTPException 401 ''Invalid credentials'')"
    by blast
  from login_failure_indistinguishable
         [of "alice_login\<lparr>UserLogin.password := ''wrongpw''\<rparr>" db1 plain_libs env0] b c
  have 2: "login plain_libs env0 db1 (alice_login\<lparr>UserLogin.password := ''wrongpw''\<rparr>) =
             Inl (HTTPException 401 ''Invalid credentials'')"
    by blast
  from a b c 1 2 show ?thesis by simp
qed

lemma find_snoc:
  "find P (xs @ [x]) = (case find P xs of None \<Rightarrow> (if P x then Some x else None) | Some y \<Rightarrow> Some y)"
  by (induction xs) auto

lemma pwd_contract_plain: "pwd_contract plain_libs"
  by (simp add: pwd_contract_def plain_libs_def plain_verify_def plain_hash_def)

lemma register_fresh:
  assumes "find (\<lambda>d. User.email d = UserCreate.email user_data) (users s) = None"
  shows "register L env s user_data =
           (Inr \<lparr>user = \<lparr>User.id = str_uuid (uuid4 env),
                           User.email = UserCreate.email user_data,
                           User.name = UserCreate.name user_data,
                           User.created_at = utcnow env\<rparr>,
                  token = create_jwt_token L (str_uuid (uuid4 env)) (utcnow_token env),
                  message = ''Registration successful''\<rparr>,
            s\<lparr>users := users s @
                 [with_password_hash
                    \<lparr>User.id = str_uuid (uuid4 env),
                      User.email = UserCreate.email user_data,
                      User.name = UserCreate.name user_data,
                      User.created_at = utcnow env\<rparr>
                    (hash_password L (gensalt env) (UserCreate.password user_data))]\<rparr>)"
  using assms by (simp add: register_def Let_def)

text \<open>
  C3. When no stored user has the e-mail address, \<^verbatim>\<open>register\<close> succeeds, a \<^verbatim>\<open>login\<close>
  with the same e-mail address and password on the resulting database succeeds, and the
  two responses carry a user with the same identifier. The password context is assumed to
  verify a password against its own hash.
\<close>

theorem register_then_login:
  assumes "pwd_contract L"
    and "find (\<lambda>d. User.email d = e) (users s) = None"
  shows "\<exists>r s' r'.
           register L env s
             \<lparr>UserCreate.email = e, UserCreate.password = pw, UserCreate.name = n\<rparr> = (Inr r, s') \<and>
           login L env' s' \<lparr>UserLogin.email = e, UserLogin.password = pw\<rparr> = Inr r' \<and>
           User.id (user r) = User.id (user r')"
proof -
  let ?data = "\<lparr>UserCreate.email = e, UserCreate.password = pw, UserCreate.name = n\<rparr>"
  let ?u = "\<lparr>User.id = str_uuid (uuid4 env), User.email = e, User.name = n,
             User.created_at = utcnow env\<rparr>"
  let ?d = "with_password_hash ?u (hash_password L (gensalt env) pw)"
  let ?s' = "s\<lparr>users := users s @ [?d]\<rparr>"
  from assms(2) have reg:
    "register L env s ?data =
       (Inr \<lparr>user = ?u, token = create_jwt_token L (str_uuid (uuid4 env)) (utcnow_token env),
              message = ''Registration successful''\<rparr>, ?s')"
    using register_fresh [of ?data s L env] by simp
  have mail: "User.email ?d = e"
    by (simp add: with_password_hash_def User.extend_def)
  have found: "find (\<lambda>d. User.email d = e) (users ?s') = Some ?d"
    using assms(2) mail by (simp add: find_snoc)
  have hash: "password_hash ?d = hash_password L (gensalt env) pw"
    by (simp add: with_password_hash_def User.extend_def user_doc.fields_def)
  from assms(1) have ok: "verify_password L pw (password_hash ?d) = Some True"
    unfolding hash by (simp add: pwd_contract_def verify_password_def hash_password_def)
  have ident: "User.id (User_init ?d) = str_uuid (uuid4 env)"
    by (simp add: User_init_def User.truncate_def with_password_hash_def User.extend_def)
  have log:
    "login L env' ?s' \<lparr>UserLogin.email = e, UserLogin.password = pw\<rparr> =
       Inr \<lparr>user = User_init ?d,
             token = create_jwt_token L (User.id (User_init ?d)) (utcnow_token env'),
             message = ''Login successful''\<rparr>"
    unfolding login_def using found ok by (simp add: Let_def)
  from reg log ident show ?thesis by simp
qed

theorem register_then_login_witness:
  "pwd_contract plain_libs \<and>
   find (\<lambda>d. User.email d = ''alice@example.com'') (users empty_db) = None \<and>
   (\<exists>r s' r'.
      register plain_libs env0 empty_db alice = (Inr r, s') \<and>
      login plain_libs env0 s' alice_login = Inr r' \<and>
      User.id (user r) = User.id (user r'))"
proof -
  have f: "find (\<lambda>d. User.email d = ''alice@example.com'') (users empty_db) = None"
    by (simp add: empty_db_def)
  from register_then_login [OF pwd_contract_plain f, of env0 "''pw123''" "''Alice''" env0]
    pwd_contract_plain f
  show ?thesis by (simp add: alice_def alice_login_def)
qed

section \<open>List membership\<close>

lemma delete_one_filter:
  "delete_one q xs = (n, ys) \<Longrightarrow> length (filter p ys) \<le> length (filter p xs)"
proof (induction xs arbitrary: n ys)
  case Nil
  then show ?case by simp
next
  case (Cons x xs)
  show ?case
  proof (cases "q x")
    case True
    with Cons.prems show ?thesis by auto
  next
    case False
    obtain m zs where d: "delete_one q xs = (m, zs)" by (cases "delete_one q xs")
    with False Cons.prems have "ys = x # zs" by simp
    with Cons.IH [OF d] show ?thesis by simp
  qed
qed

lemma delete_one_hit:
  "delete_one q xs = (n, ys) \<Longrightarrow> n \<noteq> 0 \<Longrightarrow>
   length (filter q xs) = Suc (length (filter q ys))"
proof (induction xs arbitrary: n ys)
  case Nil
  then show ?case by simp
next
  case (Cons x xs)
  show ?case
  proof (cases "q x")
    case True
    with Cons.prems show ?thesis by auto
  next
    case False
    obtain m zs where d: "delete_one q xs = (m, zs)" by (cases "delete_one q xs")
    with False Cons.prems have "ys = x # zs" and "m \<noteq> 0" by auto
    with Cons.IH [OF d] False show ?thesis by simp
  qed
qed

lemma delete_one_set: "delete_one q xs = (n, ys) \<Longrightarrow> set ys \<subseteq> set xs"
  by (induction xs arbitrary: n ys) (auto split: if_splits prod.splits)

lemma delete_one_count: "delete_one q xs = (n, ys) \<Longrightarrow> n \<le> 1"
  by (induction xs arbitrary: n ys) (auto split: if_splits prod.splits)

lemma delete_one_miss: "filter q xs = [] \<Longrightarrow> delete_one q xs = (0, xs)"
  by (induction xs) (auto split: if_splits)

lemma find_filter_Nil: "find q xs = None \<longleftrightarrow> filter q xs = []"
  by (induction xs) auto

lemma list_query_inj:
  "list_query uid mid lt r \<Longrightarrow> list_query uid' mid' lt' r \<Longrightarrow>
   uid' = uid \<and> mid' = mid \<and> lt' = lt"
  by (auto simp: list_query_def)

lemma add_to_list_fresh:
  assumes "find (list_query (User.id u) mid lt) (user_lists s) = None"
  shows "add_to_list env s mid lt u =
           (Inr (''Added to '' @ lt),
            s\<lparr>user_lists := user_lists s @
                 [\<lparr>UserList.id = str_uuid (uuid4 env), UserList.user_id = User.id u,
                   UserList.movie_id = mid, UserList.list_type = lt,
                   UserList.created_at = utcnow env\<rparr>]\<rparr>)"
  using assms by (simp add: add_to_list_def)

lemma add_to_list_present:
  assumes "find (list_query (User.id u) mid lt) (user_lists s) = Some r"
  shows "add_to_list env s mid lt u = (Inl (HTTPException 400 ''Already in list''), s)"
  using assms by (simp add: add_to_list_def)

text \<open>The uniqueness of the triple, as a property of the collection.\<close>

lemma add_to_list_unique:
  assumes inv: "\<And>uid mid lt. length (filter (list_query uid mid lt) (user_lists s)) \<le> 1"
    and add: "add_to_list env s mid lt u = (res, s')"
  shows "length (filter (list_query uid' mid' lt') (user_lists s')) \<le> 1"
proof (cases "find (list_query (User.id u) mid lt) (user_lists s)")
  case (Some r)
  with add have "s' = s" by (simp add: add_to_list_def)
  with inv show ?thesis by simp
next
  case None
  let ?r = "\<lparr>UserList.id = str_uuid (uuid4 env), UserList.user_id = User.id u,
              UserList.movie_id = mid, UserList.list_type = lt,
              UserList.created_at = utcnow env\<rparr>"
  from None add have s': "user_lists s' = user_lists s @ [?r]"
    by (auto simp: add_to_list_fresh)
  have new: "list_query (User.id u) mid lt ?r" by (simp add: list_query_def)
  show ?thesis
  proof (cases "list_query uid' mid' lt' ?r")
    case False
    with s' inv [of uid' mid' lt'] show ?thesis by simp
  next
    case True
    from list_query_inj [OF new True] None
    have "filter (list_query uid' mid' lt') (user_lists s) = []"
      by (simp add: find_filter_Nil)
    with s' True show ?thesis by simp
  qed
qed

lemma remove_from_list_unique:
  assumes inv: "\<And>uid mid lt. length (filter (list_query uid mid lt) (user_lists s)) \<le> 1"
    and rem: "remove_from_list s mid lt u = (res, s')"
  shows "length (filter (list_query uid' mid' lt') (user_lists s')) \<le> 1"
proof -
  obtain n ys where d: "delete_one (list_query (User.id u) mid lt) (user_lists s) = (n, ys)"
    by (cases "delete_one (list_query (User.id u) mid lt) (user_lists s)")
  with rem have "user_lists s' = ys"
    by (auto simp: remove_from_list_def split: if_splits)
  with delete_one_filter [OF d, of "list_query uid' mid' lt'"] inv [of uid' mid' lt']
  show ?thesis by simp
qed

lemma register_user_lists: "register L env s user_data = (res, s') \<Longrightarrow> user_lists s' = user_lists s"
  by (auto simp: register_def Let_def split: option.splits)

lemma reach_unique:
  "reach L s I \<Longrightarrow> length (filter (list_query uid mid lt) (user_lists s)) \<le> 1"
proof (induction arbitrary: uid mid lt rule: reach.induct)
  case start
  show ?case by (simp add: empty_db_def)
next
  case (catalog s I ms)
  then show ?case by simp
next
  case (registered s I env user_data r s')
  from register_user_lists [OF registered.hyps(2)] registered.IH show ?case by simp
next
  case (logged_in s I env login_data r)
  then show ?case by simp
next
  case (added s I env mid0 lt0 u res s')
  from add_to_list_unique [OF added.IH added.hyps(2)] show ?case .
next
  case (removed s I mid0 lt0 u res s')
  from remove_from_list_unique [OF removed.IH removed.hyps(2)] show ?case .
qed

lemma add_bob: "add_to_list env0 empty_db ''m1'' ''favorites'' bob = (Inr ''Added to favorites'', db2)"
  by (simp add: add_to_list_def empty_db_def db2_def bob_favorite_def bob_def env0_def)

lemma reach_db2: "reach plain_libs db2 []"
  using reach.added [OF reach.start add_bob] .

text \<open>
  C1. In every reachable state the collection of memberships holds at most one record for
  each triple of user identifier, movie identifier and list type; and \<^verbatim>\<open>add_to_list\<close>,
  called for the triple of a stored record, answers 400 ``Already in list'' and leaves the
  database as it is.
\<close>

theorem membership_unique:
  assumes "reach L s I"
  shows "length (filter (list_query uid mid lt) (user_lists s)) \<le> 1 \<and>
         (\<forall>r \<in> set (user_lists s). \<forall>u env.
            User.id u = UserList.user_id r \<longrightarrow>
            add_to_list env s (UserList.movie_id r) (UserList.list_type r) u =
              (Inl (HTTPException 400 ''Already in list''), s))"
proof
  from reach_unique [OF assms]
  show "length (filter (list_query uid mid lt) (user_lists s)) \<le> 1" .
next
  show "\<forall>r \<in> set (user_lists s). \<forall>u env.
          User.id u = UserList.user_id r \<longrightarrow>
          add_to_list env s (UserList.movie_id r) (UserList.list_type r) u =
            (Inl (HTTPException 400 ''Already in list''), s)"
  proof (intro ballI allI impI)
    fix r and u :: User and env :: request_env
    assume r: "r \<in> set (user_lists s)" and u: "User.id u = UserList.user_id r"
    let ?q = "list_query (User.id u) (UserList.movie_id r) (UserList.list_type r)"
    from u have "?q r" by (simp add: list_query_def)
    with r have "find ?q (user_lists s) \<noteq> None" by (auto simp: find_None_iff)
    then obtain x where "find ?q (user_lists s) = Some x" by blast
    then show "add_to_list env s (UserList.movie_id r) (UserList.list_type r) u =
                 (Inl (HTTPException 400 ''Already in list''), s)"
      by (rule add_to_list_present)
  qed
qed

theorem membership_unique_witness:
  "reach plain_libs db2 [] \<and>
   length (filter (list_query ''bob'' ''m1'' ''favorites'') (user_lists db2)) \<le> 1 \<and>
   bob_favorite \<in> set (user_lists db2) \<and>
   add_to_list env0 db2 ''m1'' ''favorites'' bob = (Inl (HTTPException 400 ''Already in list''), db2)"
proof -
  have m: "bob_favorite \<in> set (user_lists db2)" by (simp add: db2_def)
  have i: "User.id bob = UserList.user_id bob_favorite" by (simp add: bob_def bob_favorite_def)
  from membership_unique [OF reach_db2, of "''bob''" "''m1''" "''favorites''"]
  have 1: "length (filter (list_query ''bob'' ''m1'' ''favorites'') (user_lists db2)) \<le> 1"
    and 2: "\<forall>r \<in> set (user_lists db2). \<forall>u env.
            User.id u = UserList.user_id r \<longrightarrow>
            add_to_list env db2 (UserList.movie_id r) (UserList.list_type r) u =
              (Inl (HTTPException 400 ''Already in list''), db2)"
    by blast+
  from 2 m i have "add_to_list env0 db2 (UserList.movie_id bob_favorite)
      (UserList.list_type bob_favorite) bob = (Inl (HTTPException 400 ''Already in list''), db2)"
    by blast
  then have 3: "add_to_list env0 db2 ''m1'' ''favorites'' bob =
      (Inl (HTTPException 400 ''Already in list''), db2)"
    by (simp add: bob_favorite_def)
  from reach_db2 1 m 3 show ?thesis by simp
qed


lemma remove_bob:
  "remove_from_list db2 ''m1'' ''favorites'' bob = (Inr ''Removed from favorites'', empty_db)"
  by (simp add: remove_from_list_def db2_def empty_db_def bob_favorite_def bob_def list_query_def)

lemma remove_from_list_hit:
  assumes "remove_from_list s mid lt u = (Inr msg, s')"
  shows "\<exists>ys. delete_one (list_query (User.id u) mid lt) (user_lists s) = (1, ys) \<and>
              s' = s\<lparr>user_lists := ys\<rparr>"
proof -
  obtain n ys where d: "delete_one (list_query (User.id u) mid lt) (user_lists s) = (n, ys)"
    by (cases "delete_one (list_query (User.id u) mid lt) (user_lists s)")
  from delete_one_count [OF d] have "n \<le> 1" .
  moreover from assms d have "n \<noteq> 0" and "s' = s\<lparr>user_lists := ys\<rparr>"
    by (auto simp: remove_from_list_def split: if_splits)
  ultimately show ?thesis using d by auto
qed

lemma remove_from_list_miss:
  assumes "filter (list_query (User.id u) mid lt) (user_lists s) = []"
  shows "remove_from_list s mid lt u = (Inl (HTTPException 404 ''Item not found in list''), s)"
  using delete_one_miss [OF assms] by (simp add: remove_from_list_def)

text \<open>
  C4. In a reachable state, when \<^verbatim>\<open>add_to_list\<close> has succeeded for a user, a movie and a
  list type, the same call on the resulting database fails with 400 ``Already in list'';
  and when \<^verbatim>\<open>remove_from_list\<close> has succeeded, the same call on the resulting database
  fails with 404 ``Item not found in list''. Both failing calls leave the database as it is.
\<close>

theorem duplicate_add_double_remove:
  assumes "reach L s I"
  shows "(\<forall>msg s1. add_to_list env s mid lt u = (Inr msg, s1) \<longrightarrow>
            add_to_list env' s1 mid lt u = (Inl (HTTPException 400 ''Already in list''), s1)) \<and>
         (\<forall>msg s2. remove_from_list s mid lt u = (Inr msg, s2) \<longrightarrow>
            remove_from_list s2 mid lt u =
              (Inl (HTTPException 404 ''Item not found in list''), s2))"
proof (intro conjI allI impI)
  fix msg s1
  assume add: "add_to_list env s mid lt u = (Inr msg, s1)"
  let ?q = "list_query (User.id u) mid lt"
  let ?r = "\<lparr>UserList.id = str_uuid (uuid4 env), UserList.user_id = User.id u,
              UserList.movie_id = mid, UserList.list_type = lt,
              UserList.created_at = utcnow env\<rparr>"
  from add have none: "find ?q (user_lists s) = None"
    by (auto simp: add_to_list_def split: option.splits)
  with add have "user_lists s1 = user_lists s @ [?r]"
    by (auto simp: add_to_list_fresh)
  moreover have "?q ?r" by (simp add: list_query_def)
  ultimately have "find ?q (user_lists s1) = Some ?r"
    using none by (simp add: find_snoc)
  then show "add_to_list env' s1 mid lt u = (Inl (HTTPException 400 ''Already in list''), s1)"
    by (rule add_to_list_present)
next
  fix msg s2
  assume rem: "remove_from_list s mid lt u = (Inr msg, s2)"
  let ?q = "list_query (User.id u) mid lt"
  from remove_from_list_hit [OF rem] obtain ys
    where d: "delete_one ?q (user_lists s) = (1, ys)" and s2: "s2 = s\<lparr>user_lists := ys\<rparr>"
    by blast
  from delete_one_hit [OF d] have "length (filter ?q (user_lists s)) = Suc (length (filter ?q ys))"
    by simp
  with reach_unique [OF assms, of "User.id u" mid lt] have "filter ?q ys = []" by simp
  with s2 have "filter ?q (user_lists s2) = []" by simp
  then show "remove_from_list s2 mid lt u =
               (Inl (HTTPException 404 ''Item not found in list''), s2)"
    by (rule remove_from_list_miss)
qed

theorem duplicate_add_double_remove_witness:
  "reach plain_libs empty_db [] \<and> reach plain_libs db2 [] \<and>
   add_to_list env0 empty_db ''m1'' ''favorites'' bob = (Inr ''Added to favorites'', db2) \<and>
   add_to_list env0 db2 ''m1'' ''favorites'' bob = (Inl (HTTPException 400 ''Already in list''), db2) \<and>
   remove_from_list db2 ''m1'' ''favorites'' bob = (Inr ''Removed from favorites'', empty_db) \<and>
   remove_from_list empty_db ''m1'' ''favorites'' bob =
     (Inl (HTTPException 404 ''Item not found in list''), empty_db)"
proof -
  have r0: "reach plain_libs empty_db []" by (rule reach.start)
  from duplicate_add_double_remove [OF r0, of env0 "''m1''" "''favorites''" bob env0] add_bob
  have 1: "add_to_list env0 db2 ''m1'' ''favorites'' bob =
             (Inl (HTTPException 400 ''Already in list''), db2)"
    by blast
  from duplicate_add_double_remove [OF reach_db2, of env0 "''m1''" "''favorites''" bob env0]
    remove_bob
  have 2: "remove_from_list empty_db ''m1'' ''favorites'' bob =
             (Inl (HTTPException 404 ''Item not found in list''), empty_db)"
    by blast
  from r0 reach_db2 add_bob remove_bob 1 2 show ?thesis by simp
qed


section \<open>The list type of a membership\<close>

lemma add_wishlist:
  "add_to_list env0 empty_db ''m1'' ''wishlist'' bob =
     (Inr ''Added to wishlist'',
      empty_db\<lparr>user_lists := [bob_favorite\<lparr>UserList.list_type := ''wishlist''\<rparr>]\<rparr>)"
  by (simp add: add_to_list_def empty_db_def bob_favorite_def bob_def env0_def)

text \<open>
  C10, as stated, fails: on the empty database \<^verbatim>\<open>add_to_list\<close> accepts the list type
  \<^verbatim>\<open>wishlist\<close>, and the state it reaches holds a record with that tag.
\<close>

theorem list_type_domain_counterexample:
  "reach plain_libs (snd (add_to_list env0 empty_db ''m1'' ''wishlist'' bob)) [] \<and>
   fst (add_to_list env0 empty_db ''m1'' ''wishlist'' bob) = Inr ''Added to wishlist'' \<and>
   map UserList.list_type (user_lists (snd (add_to_list env0 empty_db ''m1'' ''wishlist'' bob))) =
     [''wishlist''] \<and>
   ''wishlist'' \<notin> {''favorites'', ''watched''}"
proof -
  have "reach plain_libs (snd (add_to_list env0 empty_db ''m1'' ''wishlist'' bob)) []"
    using reach.added [OF reach.start add_wishlist, of plain_libs] by (simp add: add_wishlist)
  then show ?thesis by (simp add: add_wishlist)
qed

text \<open>
  C10, amended. \<^verbatim>\<open>add_to_list\<close> accepts every list type: it succeeds whenever the triple
  is not stored yet, its only failure is 400 ``Already in list'' for a stored triple, and
  the record it stores carries the list type it was given, after the records already there.
  So the list types of the stored records stay within a set \<open>A\<close> (such as favorites and
  watched) as long as every call passes a list type of \<open>A\<close>; \<^verbatim>\<open>remove_from_list\<close> never
  adds a list type.
\<close>

theorem list_type_stored_as_given:
  "(find (list_query (User.id u) mid lt) (user_lists s) = None \<longrightarrow>
      fst (add_to_list env s mid lt u) = Inr (''Added to '' @ lt) \<and>
      map UserList.list_type (user_lists (snd (add_to_list env s mid lt u))) =
        map UserList.list_type (user_lists s) @ [lt]) \<and>
   (\<forall>x. fst (add_to_list env s mid lt u) = Inl x \<longrightarrow>
      x = HTTPException 400 ''Already in list'' \<and>
      find (list_query (User.id u) mid lt) (user_lists s) \<noteq> None) \<and>
   (UserList.list_type ` set (user_lists s) \<subseteq> A \<and> lt \<in> A \<longrightarrow>
      UserList.list_type ` set (user_lists (snd (add_to_list env s mid lt u))) \<subseteq> A) \<and>
   (UserList.list_type ` set (user_lists s) \<subseteq> A \<longrightarrow>
      UserList.list_type ` set (user_lists (snd (remove_from_list s mid lt u))) \<subseteq> A)"
proof (intro conjI allI impI)
  assume "find (list_query (User.id u) mid lt) (user_lists s) = None"
  then show "fst (add_to_list env s mid lt u) = Inr (''Added to '' @ lt)"
    and "map UserList.list_type (user_lists (snd (add_to_list env s mid lt u))) =
           map UserList.list_type (user_lists s) @ [lt]"
    by (simp_all add: add_to_list_fresh)
next
  fix x
  assume "fst (add_to_list env s mid lt u) = Inl x"
  then show "x = HTTPException 400 ''Already in list''"
    and "find (list_query (User.id u) mid lt) (user_lists s) \<noteq> None"
    by (auto simp: add_to_list_def split: option.splits)
next
  assume "UserList.list_type ` set (user_lists s) \<subseteq> A \<and> lt \<in> A"
  then show "UserList.list_type ` set (user_lists (snd (add_to_list env s mid lt u))) \<subseteq> A"
    by (auto simp: add_to_list_def split: option.splits)
next
  assume a: "UserList.list_type ` set (user_lists s) \<subseteq> A"
  obtain n ys where d: "delete_one (list_query (User.id u) mid lt) (user_lists s) = (n, ys)"
    by (cases "delete_one (list_query (User.id u) mid lt) (user_lists s)")
  then have "user_lists (snd (remove_from_list s mid lt u)) = ys"
    by (simp add: remove_from_list_def)
  with delete_one_set [OF d] a
  show "UserList.list_type ` set (user_lists (snd (remove_from_list s mid lt u))) \<subseteq> A"
    by auto
qed

theorem list_type_stored_as_given_witness:
  "find (list_query (User.id bob) ''m1'' ''favorites'') (user_lists empty_db) = None \<and>
   fst (add_to_list env0 empty_db ''m1'' ''favorites'' bob) = Inr ''Added to favorites'' \<and>
   map UserList.list_type (user_lists (snd (add_to_list env0 empty_db ''m1'' ''favorites'' bob))) =
     [''favorites''] \<and>
   fst (add_to_list env0 db2 ''m1'' ''favorites'' bob) = Inl (HTTPException 400 ''Already in list'') \<and>
   find (list_query (User.id bob) ''m1'' ''favorites'') (user_lists db2) \<noteq> None \<and>
   UserList.list_type ` set (user_lists empty_db) \<subseteq> {''favorites'', ''watched''} \<and>
   ''favorites'' \<in> {''favorites'', ''watched''} \<and>
   UserList.list_type ` set (user_lists (snd (add_to_list env0 empty_db ''m1'' ''favorites'' bob)))
     \<subseteq> {''favorites'', ''watched''} \<and>
   UserList.list_type ` set (user_lists db2) \<subseteq> {''favorites'', ''watched''} \<and>
   UserList.list_type ` set (user_lists (snd (remove_from_list db2 ''m1'' ''favorites'' bob)))
     \<subseteq> {''favorites'', ''watched''}"
proof -
  let ?A = "{''favorites'', ''watched''}"
  have f: "find (list_query (User.id bob) ''m1'' ''favorites'') (user_lists empty_db) = None"
    by (simp add: empty_db_def)
  have e: "UserList.list_type ` set (user_lists empty_db) \<subseteq> ?A" by (simp add: empty_db_def)
  have t: "''favorites'' \<in> ?A" by simp
  have b: "UserList.list_type ` set (user_lists db2) \<subseteq> ?A" by (simp add: db2_def bob_favorite_def)
  have x: "fst (add_to_list env0 db2 ''m1'' ''favorites'' bob) = Inl (HTTPException 400 ''Already in list'')"
    by (simp add: add_to_list_def db2_def bob_favorite_def bob_def list_query_def)
  note T0 = list_type_stored_as_given [of bob "''m1''" "''favorites''" empty_db env0 ?A]
  note T2 = list_type_stored_as_given [of bob "''m1''" "''favorites''" db2 env0 ?A]
  from T0 f have 1: "fst (add_to_list env0 empty_db ''m1'' ''favorites'' bob) = Inr ''Added to favorites''"
    and 2: "map UserList.list_type (user_lists (snd (add_to_list env0 empty_db ''m1'' ''favorites'' bob))) =
              [''favorites'']"
    by (simp_all add: empty_db_def)
  from T2 x have 3: "find (list_query (User.id bob) ''m1'' ''favorites'') (user_lists db2) \<noteq> None"
    by blast
  from T0 e t have 4: "UserList.list_type ` set (user_lists (snd (add_to_list env0 empty_db ''m1'' ''favorites'' bob))) \<subseteq> ?A"
    by blast
  from T2 b have 5: "UserList.list_type ` set (user_lists (snd (remove_from_list db2 ''m1'' ''favorites'' bob))) \<subseteq> ?A"
    by blast
  from f 1 2 x 3 e t 4 b 5 show ?thesis by blast
qed

section \<open>Listing after adding\<close>

text \<open>
  C7, as stated, fails: \<^verbatim>\<open>add_to_list\<close> does not look the movie up, so it succeeds for
  an identifier that no movie of the catalogue has, and the list of favourites that
  \<^verbatim>\<open>get_user_list\<close> then returns does not contain it.
\<close>

theorem add_then_list_counterexample:
  "fst (add_to_list env0 empty_db ''m1'' ''favorites'' bob) = Inr ''Added to favorites'' \<and>
   get_user_list (snd (add_to_list env0 empty_db ''m1'' ''favorites'' bob)) ''favorites'' bob = []"
  by (simp add: add_bob get_user_list_def db2_def)

lemma add_bob_db3:
  "add_to_list env0 db3 ''m1'' ''favorites'' bob =
     (Inr ''Added to favorites'', db3\<lparr>user_lists := [bob_favorite]\<rparr>)"
  by (simp add: add_to_list_def db3_def bob_favorite_def bob_def env0_def)

text \<open>
  C7, amended. When exactly one movie of the catalogue has the identifier, then after a
  successful \<^verbatim>\<open>add_to_list\<close> for a user, this identifier and a list type (favorites or any
  other), \<^verbatim>\<open>get_user_list\<close> for that user and list type returns a sequence in which
  that movie is the one and only entry with the identifier.
\<close>

theorem add_then_list:
  assumes "add_to_list env s mid lt u = (Inr msg, s')"
    and "filter (\<lambda>m. Movie.id m = mid) (movies s) = [mv]"
  shows "filter (\<lambda>m. Movie.id m = mid) (get_user_list s' lt u) = [mv]"
proof -
  let ?r = "\<lparr>UserList.id = str_uuid (uuid4 env), UserList.user_id = User.id u,
              UserList.movie_id = mid, UserList.list_type = lt,
              UserList.created_at = utcnow env\<rparr>"
  let ?mine = "\<lambda>r. UserList.user_id r = User.id u \<and> UserList.list_type r = lt"
  from assms(1) have none: "find (list_query (User.id u) mid lt) (user_lists s) = None"
    by (auto simp: add_to_list_def split: option.splits)
  with assms(1) have s': "s' = s\<lparr>user_lists := user_lists s @ [?r]\<rparr>"
    by (auto simp: add_to_list_fresh)
  then have "mid \<in> set (map UserList.movie_id (filter ?mine (user_lists s')))"
    by simp
  then have "filter (\<lambda>m. Movie.id m = mid) (get_user_list s' lt u) =
             filter (\<lambda>m. Movie.id m = mid) (movies s')"
    unfolding get_user_list_def Let_def filter_filter
    by (intro filter_cong) auto
  with s' assms(2) show ?thesis by simp
qed

theorem add_then_list_witness:
  "add_to_list env0 db3 ''m1'' ''favorites'' bob =
     (Inr ''Added to favorites'', db3\<lparr>user_lists := [bob_favorite]\<rparr>) \<and>
   filter (\<lambda>m. Movie.id m = ''m1'') (movies db3) = [the_matrix] \<and>
   filter (\<lambda>m. Movie.id m = ''m1'')
     (get_user_list (db3\<lparr>user_lists := [bob_favorite]\<rparr>) ''favorites'' bob) = [the_matrix]"
proof -
  have c: "filter (\<lambda>m. Movie.id m = ''m1'') (movies db3) = [the_matrix]"
    by (simp add: db3_def the_matrix_def)
  from add_then_list [OF add_bob_db3 c] add_bob_db3 c show ?thesis by simp
qed


section \<open>Tokens\<close>

lemma str_uuid_nonempty: "str_uuid w \<noteq> []"
  by (simp add: str_uuid_def Let_def)

lemma User_init_id: "User.id (User_init d) = User.id d"
  by (simp add: User_init_def User.truncate_def)

lemma find_id_Some:
  assumes "d \<in> set ds" and "User.id d = uid"
  shows "\<exists>x. find (\<lambda>d. User.id d = uid) ds = Some x"
proof (cases "find (\<lambda>d. User.id d = uid) ds")
  case None
  with assms show ?thesis by (auto simp: find_None_iff)
next
  case (Some x)
  then show ?thesis by blast
qed

text \<open>What \<^verbatim>\<open>get_current_user\<close> answers to a token that \<^verbatim>\<open>create_jwt_token\<close> made at
  time \<open>T\<close>: the expiry, at the whole second of \<open>T\<close> plus 24 hours, is decided first, then
  the subject, then the lookup.\<close>

lemma get_current_user_issued:
  assumes "jwt_contract L"
  shows "get_current_user L s now (create_jwt_token L uid T) =
           (if (T + 24 * 3600 * 1000000) div 1000000 * 1000000 \<le> now
            then Inl (HTTPException 401 ''Token expired'')
            else if uid = [] then Inl (HTTPException 401 ''Invalid token'')
            else (case find (\<lambda>d. User.id d = uid) (users s) of
                    None \<Rightarrow> Inl (HTTPException 401 ''User not found'')
                  | Some d \<Rightarrow> Inr (User_init d)))"
proof -
  let ?e = "T + 24 * 3600 * 1000000"
  let ?p = "\<lparr>payload.user_id = Some uid, payload.exp = Some ?e\<rparr>"
  have tok: "create_jwt_token L uid T = jwt_encode L ?p (JWT_SECRET L) JWT_ALGORITHM"
    by (simp add: create_jwt_token_def timedelta_hours_def JWT_EXPIRATION_def)
  from assms have dec:
    "jwt_decode L (jwt_encode L ?p (JWT_SECRET L) JWT_ALGORITHM) (JWT_SECRET L) [JWT_ALGORITHM] now =
       (if timegm ?e * 1000000 \<le> now then Inl ExpiredSignatureError
        else Inr \<lparr>payload.user_id = Some uid, payload.exp = Some (timegm ?e)\<rparr>)"
    unfolding jwt_contract_def by blast
  show ?thesis
    unfolding get_current_user_def tok dec by (simp add: timegm_def)
qed

lemma add_to_list_users: "add_to_list env s mid lt u = (res, s') \<Longrightarrow> users s' = users s"
  by (auto simp: add_to_list_def split: option.splits)

lemma remove_from_list_users: "remove_from_list s mid lt u = (res, s') \<Longrightarrow> users s' = users s"
  by (auto simp: remove_from_list_def split: prod.splits if_splits)

lemma register_success:
  assumes "register L env s user_data = (Inr r, s')"
  shows "\<exists>d. users s' = users s @ [d] \<and> User.id d = str_uuid (uuid4 env) \<and>
             user r = User_init d \<and>
             token r = create_jwt_token L (User.id d) (utcnow_token env)"
proof -
  from assms have "find (\<lambda>d. User.email d = UserCreate.email user_data) (users s) = None"
    by (auto simp: register_def split: option.splits)
  from register_fresh [OF this, of L env] assms show ?thesis
    by (auto simp: with_password_hash_def User.extend_def User_init_def User.truncate_def)
qed

lemma login_success:
  assumes "login L env s login_data = Inr r"
  shows "\<exists>d \<in> set (users s). user r = User_init d \<and>
           token r = create_jwt_token L (User.id d) (utcnow_token env)"
proof -
  from assms obtain d
    where f: "find (\<lambda>d. User.email d = UserLogin.email login_data) (users s) = Some d"
    by (auto simp: login_def split: option.splits)
  then have "d \<in> set (users s)" by (auto simp: find_Some_iff)
  moreover from assms f have "user r = User_init d"
    and "token r = create_jwt_token L (User.id d) (utcnow_token env)"
    by (auto simp: login_def Let_def User_init_id split: option.splits if_splits)
  ultimately show ?thesis by blast
qed

lemma reach_ids_nonempty: "reach L s I \<Longrightarrow> \<forall>d \<in> set (users s). User.id d \<noteq> []"
proof (induction rule: reach.induct)
  case start
  show ?case by (simp add: empty_db_def)
next
  case (catalog s I ms)
  then show ?case by simp
next
  case (registered s I env user_data r s')
  from register_success [OF registered.hyps(2)] registered.IH show ?case
    by (auto simp: str_uuid_nonempty)
next
  case (logged_in s I env login_data r)
  then show ?case by simp
next
  case (added s I env mid lt u res s')
  from add_to_list_users [OF added.hyps(2)] added.IH show ?case by simp
next
  case (removed s I mid lt u res s')
  from remove_from_list_users [OF removed.hyps(2)] removed.IH show ?case by simp
qed

lemma reach_issued: "reach L s I \<Longrightarrow> issued_for_stored L s I"
proof (induction rule: reach.induct)
  case start
  show ?case by (simp add: issued_for_stored_def)
next
  case (catalog s I ms)
  then show ?case by (simp add: issued_for_stored_def)
next
  case (registered s I env user_data r s')
  from register_success [OF registered.hyps(2)] obtain d
    where "users s' = users s @ [d]" and "User.id d = str_uuid (uuid4 env)"
      and "user r = User_init d"
      and "token r = create_jwt_token L (User.id d) (utcnow_token env)"
    by blast
  with registered.IH show ?case
    by (fastforce simp: issued_for_stored_def str_uuid_nonempty User_init_id)
next
  case (logged_in s I env login_data r)
  from login_success [OF logged_in.hyps(2)] obtain d
    where "d \<in> set (users s)" and "user r = User_init d"
      and "token r = create_jwt_token L (User.id d) (utcnow_token env)"
    by blast
  with reach_ids_nonempty [OF logged_in.hyps(1)] logged_in.IH show ?case
    by (fastforce simp: issued_for_stored_def User_init_id)
next
  case (added s I env mid lt u res s')
  from add_to_list_users [OF added.hyps(2)] added.IH show ?case
    by (simp add: issued_for_stored_def)
next
  case (removed s I mid lt u res s')
  from remove_from_list_users [OF removed.hyps(2)] removed.IH show ?case
    by (simp add: issued_for_stored_def)
qed

subsection \<open>The transparent instance keeps the token contract\<close>

lemma tally_split:
  assumes "c \<noteq> CHR ''1''"
  shows "takeWhile (\<lambda>x. x = CHR ''1'') (replicate n (CHR ''1'') @ c # cs) = replicate n (CHR ''1'')"
    and "dropWhile (\<lambda>x. x = CHR ''1'') (replicate n (CHR ''1'') @ c # cs) = c # cs"
  using assms by (induction n) simp_all

lemma jwt_contract_plain: "jwt_contract plain_libs"
proof -
  have "plain_decode (plain_encode \<lparr>payload.user_id = Some uid, payload.exp = Some e\<rparr> key alg)
          key [alg] now =
        (if timegm e * 1000000 \<le> now then Inl ExpiredSignatureError
         else Inr \<lparr>payload.user_id = Some uid, payload.exp = Some (timegm e)\<rparr>)"
    for uid e key alg now
    by (simp add: plain_decode_def plain_encode_def tally_split Let_def)
  then show ?thesis by (simp add: jwt_contract_def plain_libs_def)
qed

lemma register_alice:
  "register plain_libs env0 empty_db alice =
     (Inr \<lparr>user = alice_user, token = create_jwt_token plain_libs (str_uuid 7) 0,
            message = ''Registration successful''\<rparr>, db1)"
proof -
  have "find (\<lambda>d. User.email d = UserCreate.email alice) (users empty_db) = None"
    by (simp add: empty_db_def)
  from register_fresh [OF this, of plain_libs env0] show ?thesis
    by (simp add: alice_def env0_def empty_db_def db1_def alice_doc_def alice_user_def
        hash_password_def plain_libs_def)
qed

lemma register_alice_late:
  "register plain_libs env1 empty_db alice =
     (Inr \<lparr>user = alice_user, token = create_jwt_token plain_libs (str_uuid 7) 900000,
            message = ''Registration successful''\<rparr>, db1)"
proof -
  have "find (\<lambda>d. User.email d = UserCreate.email alice) (users empty_db) = None"
    by (simp add: empty_db_def)
  from register_fresh [OF this, of plain_libs env1] show ?thesis
    by (simp add: alice_def env1_def empty_db_def db1_def alice_doc_def alice_user_def
        hash_password_def plain_libs_def)
qed

lemma reach_db1_late:
  "reach plain_libs db1 [(create_jwt_token plain_libs (str_uuid 7) 900000, 900000, str_uuid 7)]"
  using reach.registered [OF reach.start register_alice_late]
  by (simp add: env1_def alice_user_def)

lemma find_alice: "find (\<lambda>d. User.id d = str_uuid 7) (users db1) = Some alice_doc"
  by (simp add: db1_def alice_doc_def alice_user_def with_password_hash_def User.extend_def)

lemma User_init_alice: "User_init alice_doc = alice_user"
  by (simp add: alice_doc_def alice_user_def with_password_hash_def User.extend_def
      User_init_def User.truncate_def)

text \<open>
  C2, as stated, fails: the clock has microseconds and the expiry inside the token has
  none. A token issued to Alice 0.9 seconds after the epoch expires at second 86400, so at
  86400.0 seconds, which is within 24 hours of the issue, \<^verbatim>\<open>get_current_user\<close> answers
  401 ``Token expired''.
\<close>

theorem token_validity_window_counterexample:
  "jwt_contract plain_libs \<and>
   reach plain_libs db1 [(create_jwt_token plain_libs (str_uuid 7) 900000, 900000, str_uuid 7)] \<and>
   (900000 :: int) \<le> 86400000000 \<and>
   (86400000000 :: int) < 900000 + 24 * 3600 * 1000000 \<and>
   get_current_user plain_libs db1 86400000000 (create_jwt_token plain_libs (str_uuid 7) 900000) =
     Inl (HTTPException 401 ''Token expired'')"
  using jwt_contract_plain reach_db1_late
  by (simp add: get_current_user_issued [OF jwt_contract_plain])

text \<open>
  C2, amended. Let \<open>E\<close> be the time \<open>T\<close> plus 24 hours with its microseconds dropped. A
  token that \<^verbatim>\<open>register\<close> or \<^verbatim>\<open>login\<close> issued at time \<open>T\<close> for a user is accepted by
  \<^verbatim>\<open>get_current_user\<close>, in every state reached since, at every time from \<open>T\<close> to before
  \<open>E\<close>, and resolves to the stored user with that identifier; it is rejected with 401
  ``Token expired'' at every time from \<open>E\<close> on, hence at every time from \<open>T\<close> plus 24
  hours on. The token library is assumed to keep the whole seconds of the expiry, to reject
  a token from that second on and to give back the claims of a token before it.
\<close>

theorem token_validity_window:
  assumes "jwt_contract L" and "reach L s I" and "(tok, T, uid) \<in> set I"
  shows "(T \<le> now \<and> now < (T + 24 * 3600 * 1000000) div 1000000 * 1000000 \<longrightarrow>
            (\<exists>d. find (\<lambda>d. User.id d = uid) (users s) = Some d \<and>
                 get_current_user L s now tok = Inr (User_init d))) \<and>
         ((T + 24 * 3600 * 1000000) div 1000000 * 1000000 \<le> now \<longrightarrow>
            get_current_user L s now tok = Inl (HTTPException 401 ''Token expired'')) \<and>
         (T + 24 * 3600 * 1000000 \<le> now \<longrightarrow>
            get_current_user L s now tok = Inl (HTTPException 401 ''Token expired''))"
proof -
  from reach_issued [OF assms(2)] assms(3) obtain d
    where d: "d \<in> set (users s)" and uid: "User.id d = uid" and ne: "uid \<noteq> []"
      and tok: "tok = create_jwt_token L uid T"
    by (fastforce simp: issued_for_stored_def)
  from find_id_Some [OF d uid] obtain x
    where x: "find (\<lambda>d'. User.id d' = uid) (users s) = Some x" ..
  have floor: "(T + 24 * 3600 * 1000000) div 1000000 * 1000000 \<le> T + 24 * 3600 * 1000000"
    by simp
  show ?thesis
    unfolding tok get_current_user_issued [OF assms(1)] using ne x floor by auto
qed

theorem token_validity_window_witness:
  "jwt_contract plain_libs \<and>
   reach plain_libs db1 [(create_jwt_token plain_libs (str_uuid 7) 900000, 900000, str_uuid 7)] \<and>
   find (\<lambda>d. User.id d = str_uuid 7) (users db1) = Some alice_doc \<and>
   get_current_user plain_libs db1 900000 (create_jwt_token plain_libs (str_uuid 7) 900000) =
     Inr (User_init alice_doc) \<and>
   get_current_user plain_libs db1 86399999999 (create_jwt_token plain_libs (str_uuid 7) 900000) =
     Inr (User_init alice_doc) \<and>
   get_current_user plain_libs db1 86400000000 (create_jwt_token plain_libs (str_uuid 7) 900000) =
     Inl (HTTPException 401 ''Token expired'') \<and>
   get_current_user plain_libs db1 86400900000 (create_jwt_token plain_libs (str_uuid 7) 900000) =
     Inl (HTTPException 401 ''Token expired'')"
proof -
  let ?tok = "create_jwt_token plain_libs (str_uuid 7) 900000"
  have m: "(?tok, 900000, str_uuid 7) \<in> set [(?tok, 900000 :: int, str_uuid 7)]" by simp
  note T = token_validity_window [OF jwt_contract_plain reach_db1_late m]
  from T [of 900000] find_alice
  have 1: "get_current_user plain_libs db1 900000 ?tok = Inr (User_init alice_doc)" by simp
  from T [of 86399999999] find_alice
  have 2: "get_current_user plain_libs db1 86399999999 ?tok = Inr (User_init alice_doc)" by simp
  from T [of 86400000000]
  have 3: "get_current_user plain_libs db1 86400000000 ?tok =
      Inl (HTTPException 401 ''Token expired'')" by simp
  from T [of 86400900000]
  have 4: "get_current_user plain_libs db1 86400900000 ?tok =
      Inl (HTTPException 401 ''Token expired'')" by simp
  show ?thesis
    by (intro conjI, rule jwt_contract_plain, rule reach_db1_late, rule find_alice,
        rule 1, rule 2, rule 3, rule 4)
qed

section \<open>What a response shows of a user\<close>

lemma User_init_password_hash: "User_init (d\<lparr>password_hash := h\<rparr>) = User_init d"
  by (simp add: User_init_def User.truncate_def)

lemma User_dict_keys: "map fst (User_dict u) = [''id'', ''email'', ''name'', ''created_at'']"
  by (simp add: User_dict_def)

lemma user_doc_dict_keys:
  "map fst (user_doc_dict d) = [''id'', ''email'', ''name'', ''created_at'', ''password_hash'']"
  by (simp add: user_doc_dict_def User_dict_def)

lemma no_hash_key: "''password_hash'' \<notin> fst ` set (User_dict u)"
  by (simp add: User_dict_def)

lemma hash_key_stored: "''password_hash'' \<in> fst ` set (user_doc_dict d)"
  by (simp add: user_doc_dict_def)

lemma get_current_user_success:
  assumes "get_current_user L s now tok = Inr u"
  shows "\<exists>d \<in> set (users s). u = User_init d"
proof -
  from assms obtain uid d where "find (\<lambda>d. User.id d = uid) (users s) = Some d"
    and "u = User_init d"
    by (auto simp: get_current_user_def split: sum.splits jwt_error.splits option.splits if_splits)
  then show ?thesis by (auto simp: find_Some_iff)
qed

lemma login_alice:
  "login plain_libs env0 db1 alice_login =
     Inr \<lparr>user = alice_user, token = create_jwt_token plain_libs (str_uuid 7) 0,
           message = ''Login successful''\<rparr>"
  by (simp add: login_def alice_login_def db1_def alice_doc_def alice_user_def env0_def
      with_password_hash_def User.extend_def user_doc.fields_def User_init_def User.truncate_def
      verify_password_def plain_libs_def plain_verify_def plain_hash_def)

lemma me_alice:
  "get_current_user plain_libs db1 0 (create_jwt_token plain_libs (str_uuid 7) 0) = Inr alice_user"
  unfolding get_current_user_issued [OF jwt_contract_plain]
  by (simp add: str_uuid_nonempty find_alice User_init_alice)

text \<open>
  C8. In every successful answer of \<^verbatim>\<open>register\<close>, \<^verbatim>\<open>login\<close> and \<^verbatim>\<open>/auth/me\<close> the user is
  a \<^verbatim>\<open>User\<close> whose dictionary has no key \<^verbatim>\<open>password_hash\<close>, although it is built from a
  stored document that has the key; and the user in the answer is the same whatever hash
  that document holds.
\<close>

theorem password_hash_not_exposed:
  "(\<forall>r s'. register L env s user_data = (Inr r, s') \<longrightarrow>
      ''password_hash'' \<notin> fst ` set (User_dict (user r)) \<and>
      (\<exists>d \<in> set (users s'). ''password_hash'' \<in> fst ` set (user_doc_dict d) \<and>
         (\<forall>h. user r = User_init (d\<lparr>password_hash := h\<rparr>)))) \<and>
   (\<forall>r. login L env s login_data = Inr r \<longrightarrow>
      ''password_hash'' \<notin> fst ` set (User_dict (user r)) \<and>
      (\<exists>d \<in> set (users s). ''password_hash'' \<in> fst ` set (user_doc_dict d) \<and>
         (\<forall>h. user r = User_init (d\<lparr>password_hash := h\<rparr>)))) \<and>
   (\<forall>u. get_current_user L s now tok = Inr u \<longrightarrow>
      ''password_hash'' \<notin> fst ` set (User_dict (get_me u)) \<and>
      (\<exists>d \<in> set (users s). ''password_hash'' \<in> fst ` set (user_doc_dict d) \<and>
         (\<forall>h. get_me u = User_init (d\<lparr>password_hash := h\<rparr>))))"
proof (intro conjI allI impI)
  fix r s'
  assume "register L env s user_data = (Inr r, s')"
  from register_success [OF this] obtain d
    where "users s' = users s @ [d]" and "user r = User_init d"
    by blast
  then show "\<exists>d \<in> set (users s'). ''password_hash'' \<in> fst ` set (user_doc_dict d) \<and>
               (\<forall>h. user r = User_init (d\<lparr>password_hash := h\<rparr>))"
    by (auto simp: hash_key_stored User_init_password_hash)
next
  fix r
  assume "login L env s login_data = Inr r"
  from login_success [OF this] obtain d
    where "d \<in> set (users s)" and "user r = User_init d"
    by blast
  then show "\<exists>d \<in> set (users s). ''password_hash'' \<in> fst ` set (user_doc_dict d) \<and>
               (\<forall>h. user r = User_init (d\<lparr>password_hash := h\<rparr>))"
    by (auto simp: hash_key_stored User_init_password_hash)
next
  fix u
  assume "get_current_user L s now tok = Inr u"
  from get_current_user_success [OF this] obtain d
    where "d \<in> set (users s)" and "u = User_init d"
    by blast
  then show "\<exists>d \<in> set (users s). ''password_hash'' \<in> fst ` set (user_doc_dict d) \<and>
               (\<forall>h. get_me u = User_init (d\<lparr>password_hash := h\<rparr>))"
    by (auto simp: hash_key_stored User_init_password_hash get_me_def)
qed (rule no_hash_key)+

theorem password_hash_not_exposed_witness:
  "register plain_libs env0 empty_db alice =
     (Inr \<lparr>user = alice_user, token = create_jwt_token plain_libs (str_uuid 7) 0,
            message = ''Registration successful''\<rparr>, db1) \<and>
   login plain_libs env0 db1 alice_login =
     Inr \<lparr>user = alice_user, token = create_jwt_token plain_libs (str_uuid 7) 0,
           message = ''Login successful''\<rparr> \<and>
   get_current_user plain_libs db1 0 (create_jwt_token plain_libs (str_uuid 7) 0) = Inr alice_user \<and>
   ''password_hash'' \<notin> fst ` set (User_dict alice_user) \<and>
   ''password_hash'' \<notin> fst ` set (User_dict (get_me alice_user)) \<and>
   (\<exists>d \<in> set (users db1). ''password_hash'' \<in> fst ` set (user_doc_dict d) \<and>
      (\<forall>h. alice_user = User_init (d\<lparr>password_hash := h\<rparr>))) \<and>
   (\<exists>d \<in> set (users db1). ''password_hash'' \<in> fst ` set (user_doc_dict d) \<and>
      (\<forall>h. get_me alice_user = User_init (d\<lparr>password_hash := h\<rparr>)))"
proof -
  let ?tok = "create_jwt_token plain_libs (str_uuid 7) 0"
  note R = password_hash_not_exposed [of plain_libs env0 empty_db alice alice_login 0 ?tok]
  note S = password_hash_not_exposed [of plain_libs env0 db1 alice alice_login 0 ?tok]
  from R [THEN conjunct1, rule_format, OF register_alice]
  have 1: "''password_hash'' \<notin> fst ` set (User_dict alice_user) \<and>
           (\<exists>d \<in> set (users db1). ''password_hash'' \<in> fst ` set (user_doc_dict d) \<and>
              (\<forall>h. alice_user = User_init (d\<lparr>password_hash := h\<rparr>)))"
    by simp
  from S [THEN conjunct2, THEN conjunct2, rule_format, OF me_alice]
  have 2: "''password_hash'' \<notin> fst ` set (User_dict (get_me alice_user)) \<and>
           (\<exists>d \<in> set (users db1). ''password_hash'' \<in> fst ` set (user_doc_dict d) \<and>
              (\<forall>h. get_me alice_user = User_init (d\<lparr>password_hash := h\<rparr>)))" .
  show ?thesis
    by (intro conjI, rule register_alice, rule login_alice, rule me_alice,
        rule 1 [THEN conjunct1], rule 2 [THEN conjunct1],
        rule 1 [THEN conjunct2], rule 2 [THEN conjunct2])
qed

section \<open>Tampered tokens\<close>

lemma b64_value_not_pad: "b64_value c = Some v \<Longrightarrow> c \<noteq> CHR ''=''"
  by (auto simp: b64_value_def Let_def split: if_splits)

lemma b64_value_not_dot: "b64_value c = Some v \<Longrightarrow> c \<noteq> CHR ''.''"
  by (auto simp: b64_value_def Let_def split: if_splits)

lemma a2b_base64_last_bits:
  assumes "\<forall>ch \<in> set sg. b64_value ch \<noteq> None"
    and "b64_value c = Some v" and "b64_value c' = Some v'" and "v div 4 = v' div 4"
    and "q < 4" and "(q + length sg) mod 4 = 2"
  shows "a2b_base64 q l pd out (sg @ [c, CHR ''='']) = a2b_base64 q l pd out (sg @ [c', CHR ''=''])"
  using assms(1,5,6)
proof (induction sg arbitrary: q l pd out)
  case Nil
  then have "q = 2" by simp
  with assms(2-4) b64_value_not_pad [OF assms(2)] b64_value_not_pad [OF assms(3)]
  show ?case by simp
next
  case (Cons ch sg)
  from Cons.prems(1) obtain w where w: "b64_value ch = Some w" by auto
  from b64_value_not_pad [OF w] have np: "ch \<noteq> CHR ''=''" .
  from Cons.prems(1) have rest: "\<forall>ch \<in> set sg. b64_value ch \<noteq> None" by simp
  from Cons.prems(2) consider "q = 0" | "q = 1" | "q = 2" | "q = 3" by linarith
  then show ?case
  proof cases
    case 1
    with Cons.prems(3) have "(1 + length sg) mod 4 = 2" by simp
    from Cons.IH [OF rest _ this] 1 w np show ?thesis by simp
  next
    case 2
    with Cons.prems(3) have "(2 + length sg) mod 4 = 2" by simp
    from Cons.IH [OF rest _ this] 2 w np show ?thesis by simp
  next
    case 3
    with Cons.prems(3) have "(3 + length sg) mod 4 = 2" by simp
    from Cons.IH [OF rest _ this] 3 w np show ?thesis by simp
  next
    case 4
    with Cons.prems(3) have "(0 + length sg) mod 4 = 2" by (simp add: mod_Suc)
    from Cons.IH [OF rest _ this] 4 w np show ?thesis by simp
  qed
qed

lemma base64url_decode_last_bits:
  assumes "\<forall>ch \<in> set sg. b64_value ch \<noteq> None" and "length sg mod 4 = 2"
    and "b64_value c = Some v" and "b64_value c' = Some v'" and "v div 4 = v' div 4"
  shows "base64url_decode (sg @ [c']) = base64url_decode (sg @ [c])"
proof -
  from assms(2) have "Suc (length sg) mod 4 = 3" by (simp add: mod_Suc)
  then have pad: "(4 - length (sg @ [x]) mod 4) mod 4 = 1" for x :: char by simp
  from assms(2) have "(0 + length sg) mod 4 = 2" by simp
  from a2b_base64_last_bits [OF assms(1) assms(3-5) _ this, of 0 0 "[]"]
  show ?thesis unfolding base64url_decode_def pad by simp
qed

lemma split_at_dot:
  assumes "CHR ''.'' \<notin> set ys"
  shows "takeWhile (\<lambda>c. c \<noteq> CHR ''.'') (ys @ CHR ''.'' # zs) = ys"
    and "dropWhile (\<lambda>c. c \<noteq> CHR ''.'') (ys @ CHR ''.'' # zs) = CHR ''.'' # zs"
  using assms by (induction ys) auto

lemma split_last_append:
  assumes "CHR ''.'' \<notin> set cs"
  shows "split_last (si @ CHR ''.'' # cs) = Some (si, cs)"
proof -
  have r: "rev (si @ CHR ''.'' # cs) = rev cs @ CHR ''.'' # rev si" by simp
  from assms have "CHR ''.'' \<notin> set (rev cs)" by simp
  from split_at_dot [OF this, of "rev si"] show ?thesis
    unfolding split_last_def r by simp
qed

lemma get_current_user_invalid:
  assumes "jwt_decode L tok (JWT_SECRET L) [JWT_ALGORITHM] now = Inl InvalidTokenError"
  shows "get_current_user L s now tok = Inl (HTTPException 401 ''Invalid token'')"
  using assms by (simp add: get_current_user_def)

lemma jws_decode_unverified:
  assumes "\<not> signature_verifies mac key tok"
  shows "jws_decode mac claims tok key algs now = Inl InvalidTokenError"
  using assms
  by (auto simp: jws_decode_def signature_verifies_def split: option.splits prod.splits)

lemma jws_decode_same_signature:
  assumes "split_last tok = Some (si, cs)" and "split_last tok' = Some (si, cs')"
    and "base64url_decode cs' = base64url_decode cs"
  shows "jws_decode mac claims tok' key algs now = jws_decode mac claims tok key algs now"
  using assms by (simp add: jws_decode_def split: option.splits prod.splits)

lemma jws_contract_tag: "jws_contract tag_libs tag_mac tag_claims"
  by (simp add: jws_contract_def tag_libs_def)


subsection \<open>Alice's token\<close>

lemma str_uuid_7: "str_uuid 7 = ''00000000-0000-0000-0000-000000000007''"
  by code_simp

lemma uuid_chars:
  "char_of (48 :: nat) = CHR ''0''" "char_of (55 :: nat) = CHR ''7''" "char_of (45 :: nat) = CHR ''-''"
  by (simp_all add: char_of_eq_iff)

lemma find_alice_tag:
  "find (\<lambda>d. User.id d = ''00000000-0000-0000-0000-000000000007'') (users db1) = Some alice_doc"
  using find_alice by (simp add: str_uuid_7)

lemma alice_token:
  "create_jwt_token tag_libs (str_uuid 7) 0 = alice_signing_input @ CHR ''.'' # alice_signature"
  by (simp add: create_jwt_token_def tag_libs_def tag_encode_def JWT_SECRET_def JWT_ALGORITHM_def
      str_uuid_7 timegm_def timedelta_hours_def JWT_EXPIRATION_def tag_mac_def b64_char_def
      char_of_eq_iff Let_def alice_signing_input_def alice_signature_def)

lemma register_alice_tag:
  "register tag_libs env0 empty_db alice =
     (Inr \<lparr>user = alice_user, token = alice_signing_input @ CHR ''.'' # alice_signature,
            message = ''Registration successful''\<rparr>, db1)"
proof -
  have "find (\<lambda>d. User.email d = UserCreate.email alice) (users empty_db) = None"
    by (simp add: empty_db_def)
  from register_fresh [OF this, of tag_libs env0] show ?thesis
    unfolding alice_token [symmetric]
    by (simp add: alice_def env0_def empty_db_def db1_def alice_doc_def alice_user_def
        hash_password_def tag_libs_def)
qed

lemmas tag_eval =
  get_current_user_def tag_libs_def jws_decode_def split_last_def split_first_def
  base64url_decode_def b64_value_def tag_mac_def tag_claims_def is_digit_def from_decimal_def
  JWT_SECRET_def JWT_ALGORITHM_def char_of_eq_iff uuid_chars find_alice_tag User_init_alice Let_def
  alice_signing_input_def alice_signature_def

text \<open>
  C9, as stated, fails. The token Alice gets at registration ends in \<^verbatim>\<open>0\<close>, the last of
  the 43 characters of its signature. With this one character changed to \<^verbatim>\<open>1\<close> the token
  is still accepted and resolves to Alice: the two characters differ only in the two low
  bits, which the decoder discards.
\<close>

theorem tampered_token_counterexample:
  "jws_contract tag_libs tag_mac tag_claims \<and>
   register tag_libs env0 empty_db alice =
     (Inr \<lparr>user = alice_user, token = alice_signing_input @ CHR ''.'' # alice_signature,
            message = ''Registration successful''\<rparr>, db1) \<and>
   get_current_user tag_libs db1 0 (alice_signing_input @ CHR ''.'' # alice_signature) =
     Inr alice_user \<and>
   alice_signature = butlast alice_signature @ ''0'' \<and>
   get_current_user tag_libs db1 0 (alice_signing_input @ CHR ''.'' # butlast alice_signature @ ''1'') =
     Inr alice_user"
proof (intro conjI)
  show "jws_contract tag_libs tag_mac tag_claims" by (rule jws_contract_tag)
  show "register tag_libs env0 empty_db alice =
     (Inr \<lparr>user = alice_user, token = alice_signing_input @ CHR ''.'' # alice_signature,
            message = ''Registration successful''\<rparr>, db1)"
    by (rule register_alice_tag)
  show "get_current_user tag_libs db1 0 (alice_signing_input @ CHR ''.'' # alice_signature) =
          Inr alice_user"
    by (simp add: tag_eval)
  show "alice_signature = butlast alice_signature @ ''0''"
    by (simp add: alice_signature_def)
  show "get_current_user tag_libs db1 0
          (alice_signing_input @ CHR ''.'' # butlast alice_signature @ ''1'') = Inr alice_user"
    by (simp add: tag_eval)
qed

text \<open>
  C9, amended. A presented string is answered 401 ``Invalid token'' whenever it does not
  pass the signature check, that is, whenever its last part does not decode to the MAC of
  what stands before the last dot; in particular when the part before the valid signature
  of a token is changed into a string with another MAC. A change that the decoding of the
  signature does not see is answered like the original token: when the signature has a
  length of 3 modulo 4 (43 characters for HS256), its last character can be replaced by
  any character of the alphabet that differs from it in the two low bits only.
\<close>

theorem tampered_token:
  assumes "jws_contract L mac claims"
  shows "(\<not> signature_verifies mac (JWT_SECRET L) tok' \<longrightarrow>
            get_current_user L s now tok' = Inl (HTTPException 401 ''Invalid token'')) \<and>
         (CHR ''.'' \<notin> set cs \<and> base64url_decode cs = Some (mac (JWT_SECRET L) si) \<and>
          mac (JWT_SECRET L) si' \<noteq> mac (JWT_SECRET L) si \<longrightarrow>
            get_current_user L s now (si' @ CHR ''.'' # cs) = Inl (HTTPException 401 ''Invalid token'')) \<and>
         (list_all (\<lambda>ch. b64_value ch \<noteq> None) sg \<and> length sg mod 4 = 2 \<and>
          b64_value c = Some v \<and> b64_value c' = Some v' \<and> v div 4 = v' div 4 \<longrightarrow>
            get_current_user L s now (si @ CHR ''.'' # sg @ [c']) =
            get_current_user L s now (si @ CHR ''.'' # sg @ [c]))"
proof (intro conjI impI)
  assume "\<not> signature_verifies mac (JWT_SECRET L) tok'"
  from jws_decode_unverified [OF this] assms
  have "jwt_decode L tok' (JWT_SECRET L) [JWT_ALGORITHM] now = Inl InvalidTokenError"
    by (simp add: jws_contract_def)
  then show "get_current_user L s now tok' = Inl (HTTPException 401 ''Invalid token'')"
    by (rule get_current_user_invalid)
next
  assume a: "CHR ''.'' \<notin> set cs \<and> base64url_decode cs = Some (mac (JWT_SECRET L) si) \<and>
             mac (JWT_SECRET L) si' \<noteq> mac (JWT_SECRET L) si"
  then have "split_last (si' @ CHR ''.'' # cs) = Some (si', cs)" by (simp add: split_last_append)
  with a have "\<not> signature_verifies mac (JWT_SECRET L) (si' @ CHR ''.'' # cs)"
    by (auto simp: signature_verifies_def)
  from jws_decode_unverified [OF this] assms
  have "jwt_decode L (si' @ CHR ''.'' # cs) (JWT_SECRET L) [JWT_ALGORITHM] now = Inl InvalidTokenError"
    by (simp add: jws_contract_def)
  then show "get_current_user L s now (si' @ CHR ''.'' # cs) = Inl (HTTPException 401 ''Invalid token'')"
    by (rule get_current_user_invalid)
next
  assume a: "list_all (\<lambda>ch. b64_value ch \<noteq> None) sg \<and> length sg mod 4 = 2 \<and>
             b64_value c = Some v \<and> b64_value c' = Some v' \<and> v div 4 = v' div 4"
  then have valid: "\<forall>ch \<in> set sg. b64_value ch \<noteq> None" by (simp add: list_all_iff)
  from a valid have dec: "base64url_decode (sg @ [c']) = base64url_decode (sg @ [c])"
    by (intro base64url_decode_last_bits [of sg c v c' v']) simp_all
  from valid have nd: "CHR ''.'' \<notin> set (sg @ [x])" if "b64_value x \<noteq> None" for x
    using that by (auto dest: b64_value_not_dot)
  from a nd [of c] nd [of c']
  have sp: "split_last (si @ CHR ''.'' # sg @ [c']) = Some (si, sg @ [c'])"
    "split_last (si @ CHR ''.'' # sg @ [c]) = Some (si, sg @ [c])"
    by (simp_all add: split_last_append)
  from jws_decode_same_signature [OF sp(2) sp(1) dec]
  have "jws_decode mac claims (si @ CHR ''.'' # sg @ [c']) key algs now =
        jws_decode mac claims (si @ CHR ''.'' # sg @ [c]) key algs now" for key algs .
  with assms have "jwt_decode L (si @ CHR ''.'' # sg @ [c']) (JWT_SECRET L) [JWT_ALGORITHM] now =
                   jwt_decode L (si @ CHR ''.'' # sg @ [c]) (JWT_SECRET L) [JWT_ALGORITHM] now"
    by (simp add: jws_contract_def)
  then show "get_current_user L s now (si @ CHR ''.'' # sg @ [c']) =
             get_current_user L s now (si @ CHR ''.'' # sg @ [c])"
    by (simp add: get_current_user_def)
qed

theorem tampered_token_witness:
  "jws_contract tag_libs tag_mac tag_claims \<and>
   \<not> signature_verifies tag_mac (JWT_SECRET tag_libs)
       (alice_signing_input @ CHR ''.'' # CHR ''c'' # tl alice_signature) \<and>
   get_current_user tag_libs db1 0 (alice_signing_input @ CHR ''.'' # CHR ''c'' # tl alice_signature) =
     Inl (HTTPException 401 ''Invalid token'') \<and>
   CHR ''.'' \<notin> set alice_signature \<and>
   base64url_decode alice_signature = Some (tag_mac (JWT_SECRET tag_libs) alice_signing_input) \<and>
   tag_mac (JWT_SECRET tag_libs) (butlast alice_signing_input @ ''4'') \<noteq>
     tag_mac (JWT_SECRET tag_libs) alice_signing_input \<and>
   get_current_user tag_libs db1 0 ((butlast alice_signing_input @ ''4'') @ CHR ''.'' # alice_signature) =
     Inl (HTTPException 401 ''Invalid token'') \<and>
   list_all (\<lambda>ch. b64_value ch \<noteq> None) (butlast alice_signature) \<and>
   length (butlast alice_signature) mod 4 = 2 \<and>
   b64_value (CHR ''0'') = Some 52 \<and> b64_value (CHR ''1'') = Some 53 \<and>
   (52 :: nat) div 4 = 53 div 4 \<and>
   get_current_user tag_libs db1 0 (alice_signing_input @ CHR ''.'' # butlast alice_signature @ ''1'') =
   get_current_user tag_libs db1 0 (alice_signing_input @ CHR ''.'' # butlast alice_signature @ ''0'')"
proof -
  let ?key = "JWT_SECRET tag_libs"
  let ?t1 = "alice_signing_input @ CHR ''.'' # CHR ''c'' # tl alice_signature"
  let ?si' = "butlast alice_signing_input @ ''4''"
  let ?sg = "butlast alice_signature"
  have h1: "\<not> signature_verifies tag_mac ?key ?t1"
    by (simp add: signature_verifies_def tag_eval)
  have h2: "CHR ''.'' \<notin> set alice_signature" by (simp add: alice_signature_def)
  have h3: "base64url_decode alice_signature = Some (tag_mac ?key alice_signing_input)"
    by (simp add: tag_eval)
  have h4: "tag_mac ?key ?si' \<noteq> tag_mac ?key alice_signing_input"
    by (simp add: tag_eval)
  have h5: "list_all (\<lambda>ch. b64_value ch \<noteq> None) ?sg" by (simp add: tag_eval)
  have h6: "length ?sg mod 4 = 2" by (simp add: alice_signature_def)
  have h7: "b64_value (CHR ''0'') = Some 52" and h8: "b64_value (CHR ''1'') = Some 53"
    by (simp_all add: b64_value_def)
  have h9: "(52 :: nat) div 4 = 53 div 4" by simp
  note T = tampered_token [OF jws_contract_tag, where s = db1 and now = 0]
  from T [where tok' = ?t1, THEN conjunct1, rule_format, OF h1]
  have 1: "get_current_user tag_libs db1 0 ?t1 = Inl (HTTPException 401 ''Invalid token'')" .
  from T [where cs = alice_signature and si = alice_signing_input and si' = ?si',
      THEN conjunct2, THEN conjunct1, rule_format, OF conjI [OF h2 conjI [OF h3 h4]]]
  have 2: "get_current_user tag_libs db1 0 (?si' @ CHR ''.'' # alice_signature) =
             Inl (HTTPException 401 ''Invalid token'')" .
  from T [where sg = ?sg and c = "CHR ''0''" and v = 52 and c' = "CHR ''1''" and v' = 53
        and si = alice_signing_input,
      THEN conjunct2, THEN conjunct2, rule_format,
      OF conjI [OF h5 conjI [OF h6 conjI [OF h7 conjI [OF h8 h9]]]]]
  have 3: "get_current_user tag_libs db1 0 (alice_signing_input @ CHR ''.'' # ?sg @ ''1'') =
           get_current_user tag_libs db1 0 (alice_signing_input @ CHR ''.'' # ?sg @ ''0'')" .
  show ?thesis
    by (intro conjI, rule jws_contract_tag, rule h1, rule 1, rule h2, rule h3, rule h4, rule 2,
        rule h5, rule h6, rule h7, rule h8, rule h9, rule 3)
qed

end
